theory Spec2Isabelle
  imports Complex_Main "HOL-Library.Sublist"
begin

section \<open>Python values and errors\<close>

text \<open>
  Exceptions of the Python source are values.  \<open>ConnectionFailure\<close> stands for the
  exception the HTTP transport raises when no response arrives.
\<close>

datatype py_error =
  KeyError | TypeError | ValueError | AttributeError | OverflowError | ConnectionFailure

text \<open>
  A decoded JSON document, as \<open>json.loads\<close> hands it to the stream handlers.  Numbers are
  reals: Python's \<open>1 == 1.0\<close>, and the handlers never compute with them.  The association
  list of an object lists the binding that is in force for a key first.
\<close>

datatype json =
  JNull
  | JBool bool
  | JNum real
  | JStr string
  | JArr "json list"
  | JObj "(string \<times> json) list"

text \<open>Truth value of a Python object (\<open>if x\<close>, \<open>not x\<close>).\<close>

fun py_truthy :: "json \<Rightarrow> bool" where
  "py_truthy JNull = False"
| "py_truthy (JBool b) = b"
| "py_truthy (JNum x) = (x \<noteq> 0)"
| "py_truthy (JStr s) = (s \<noteq> [])"
| "py_truthy (JArr xs) = (xs \<noteq> [])"
| "py_truthy (JObj kvs) = (kvs \<noteq> [])"

text \<open>Lists and dicts cannot be keys of a dict or members of a set.\<close>

fun py_hashable :: "json \<Rightarrow> bool" where
  "py_hashable (JArr xs) = False"
| "py_hashable (JObj kvs) = False"
| "py_hashable v = True"

text \<open>
  Two hashable values are the same key exactly when Python's \<open>==\<close> holds between them;
  \<open>True == 1\<close> and \<open>False == 0\<close> are the only equalities across constructors.
\<close>

fun py_key :: "json \<Rightarrow> json" where
  "py_key (JBool b) = JNum (if b then 1 else 0)"
| "py_key v = v"

text \<open>\<open>d[k]\<close> for a string literal \<open>k\<close>.\<close>

fun getitem :: "json \<Rightarrow> string \<Rightarrow> py_error + json" where
  "getitem (JObj kvs) k = (case map_of kvs k of None \<Rightarrow> Inl KeyError | Some v \<Rightarrow> Inr v)"
| "getitem v k = Inl TypeError"

text \<open>\<open>d.get(k, default)\<close>; only a dict has the method.\<close>

fun dict_get :: "json \<Rightarrow> string \<Rightarrow> json \<Rightarrow> py_error + json" where
  "dict_get (JObj kvs) k dflt = (case map_of kvs k of None \<Rightarrow> Inr dflt | Some v \<Rightarrow> Inr v)"
| "dict_get v k dflt = Inl AttributeError"

fun contains_substr :: "string \<Rightarrow> string \<Rightarrow> bool" where
  "contains_substr sub [] = (sub = [])"
| "contains_substr sub (c # cs) = (prefix sub (c # cs) \<or> contains_substr sub cs)"

text \<open>\<open>k in v\<close> for a string literal \<open>k\<close>: key of a dict, element of a list, part of a string.\<close>

fun py_contains :: "string \<Rightarrow> json \<Rightarrow> py_error + bool" where
  "py_contains k (JObj kvs) = Inr (k \<in> fst ` set kvs)"
| "py_contains k (JArr xs) = Inr (JStr k \<in> set xs)"
| "py_contains k (JStr s) = Inr (contains_substr k s)"
| "py_contains k v = Inl TypeError"

text \<open>\<open>v[11:19]\<close>.\<close>

fun slice_11_19 :: "json \<Rightarrow> py_error + json" where
  "slice_11_19 (JStr s) = Inr (JStr (take 8 (drop 11 s)))"
| "slice_11_19 (JArr xs) = Inr (JArr (take 8 (drop 11 xs)))"
| "slice_11_19 v = Inl TypeError"

text \<open>Sequencing of computations that may raise.\<close>

definition bind_err :: "py_error + 'a \<Rightarrow> ('a \<Rightarrow> py_error + 'b) \<Rightarrow> py_error + 'b" where
  "bind_err m f = (case m of Inl e \<Rightarrow> Inl e | Inr x \<Rightarrow> f x)"

text \<open>\<open>int(x)\<close> of a float truncates towards zero.\<close>

definition py_int :: "real \<Rightarrow> int" where
  "py_int x = (if 0 \<le> x then \<lfloor>x\<rfloor> else \<lceil>x\<rceil>)"

text \<open>\<open>str(n)\<close> of an integer.\<close>

definition digit_char :: "nat \<Rightarrow> char" where
  "digit_char n = ''0123456789'' ! n"

fun str_nat :: "nat \<Rightarrow> string" where
  "str_nat n = (if n < 10 then [digit_char n] else str_nat (n div 10) @ [digit_char (n mod 10)])"

declare str_nat.simps [simp del]

definition str_int :: "int \<Rightarrow> string" where
  "str_int i = (if i < 0 then CHR ''-'' # str_nat (nat (- i)) else str_nat (nat i))"

section \<open>Trading objects\<close>

text \<open>
  The enumerations of \<open>vnpy.trader.constant\<close> and the data classes of
  \<open>vnpy.trader.object\<close> are imported by the gateway.  The members the gateway names are
  \<open>LONG\<close>, \<open>SHORT\<close>, \<open>NET\<close>; \<open>LIMIT\<close>, \<open>MARKET\<close>, \<open>STOP\<close>; the five mapped statuses;
  \<open>CLOSE\<close>; \<open>MINUTE\<close>, \<open>HOUR\<close>, \<open>DAILY\<close>; \<open>BITMEX\<close>.  The remaining members stand for
  the values the gateway has no table entry for.
\<close>

datatype Direction = LONG | SHORT | NET

datatype OrderType = LIMIT | MARKET | STOP | FAK | FOK

datatype Status = SUBMITTING | NOTTRADED | PARTTRADED | ALLTRADED | CANCELLED | REJECTED

datatype Offset = NONE | OPEN | CLOSE | CLOSETODAY | CLOSEYESTERDAY

datatype Interval = MINUTE | HOUR | DAILY | WEEKLY

datatype Exchange = BITMEX | OtherExchange string

text \<open>
  Modelled from the spec: the class \<open>OrderData\<close> of \<open>vnpy.trader.object\<close> is not in the
  source.  An OrderRecord carries the display id, symbol, direction, type, price, quantity,
  cumulative-filled and status; the fields below are the keyword arguments the gateway
  passes, and the fields the gateway assigns later.  A field holds whatever Python value
  was passed in, so the fields filled from a stream record are JSON values.
\<close>

record order_data =
  o_symbol :: json
  o_exchange :: Exchange
  o_orderid :: json
  o_type :: OrderType
  o_direction :: Direction
  o_offset :: Offset
  o_price :: json
  o_volume :: json
  o_traded :: json
  o_status :: Status
  o_time :: json
  o_gateway_name :: string

text \<open>
  Modelled from the spec: the defaults of \<open>OrderData\<close> for the fields its constructor call
  leaves out: nothing filled, status pending, no offset, no time.
\<close>

definition OrderData ::
  "json \<Rightarrow> Exchange \<Rightarrow> OrderType \<Rightarrow> json \<Rightarrow> Direction \<Rightarrow> json \<Rightarrow> json \<Rightarrow> json \<Rightarrow> string
    \<Rightarrow> order_data" where
  "OrderData smb exch ty oid dir pr vol tm gw =
     \<lparr>o_symbol = smb, o_exchange = exch, o_orderid = oid, o_type = ty, o_direction = dir,
      o_offset = NONE, o_price = pr, o_volume = vol, o_traded = JNum 0,
      o_status = SUBMITTING, o_time = tm, o_gateway_name = gw\<rparr>"

text \<open>\<open>order.vt_orderid\<close>, set by the data class from gateway name and order id.\<close>

definition vt_orderid :: "string \<Rightarrow> string \<Rightarrow> string" where
  "vt_orderid gw oid = gw @ ''.'' @ oid"

record trade_data =
  t_symbol :: json
  t_exchange :: Exchange
  t_orderid :: json
  t_tradeid :: json
  t_direction :: Direction
  t_price :: json
  t_volume :: json
  t_time :: json
  t_gateway_name :: string

record order_request =
  req_symbol :: string
  req_exchange :: Exchange
  req_direction :: Direction
  req_type :: OrderType
  req_volume :: real
  req_price :: real
  req_offset :: Offset

text \<open>
  Modelled from the spec: \<open>OrderRequest.create_order_data\<close> of \<open>vnpy.trader.object\<close> is
  not in the source; it builds the OrderRecord of a submission from the request.
\<close>

definition create_order_data :: "order_request \<Rightarrow> string \<Rightarrow> string \<Rightarrow> order_data" where
  "create_order_data req orderid gw =
     (OrderData (JStr (req_symbol req)) (req_exchange req) (req_type req) (JStr orderid)
        (req_direction req) (JNum (req_price req)) (JNum (req_volume req)) (JStr []) gw)
       \<lparr>o_offset := req_offset req\<rparr>"

definition DIRECTION_VT2BITMEX :: "Direction \<Rightarrow> string option" where
  "DIRECTION_VT2BITMEX d =
     (case d of LONG \<Rightarrow> Some ''Buy'' | SHORT \<Rightarrow> Some ''Sell'' | NET \<Rightarrow> None)"

definition DIRECTION_BITMEX2VT :: "string \<Rightarrow> Direction option" where
  "DIRECTION_BITMEX2VT s =
     (if s = ''Buy'' then Some LONG else if s = ''Sell'' then Some SHORT else None)"

definition ORDERTYPE_VT2BITMEX :: "OrderType \<Rightarrow> string option" where
  "ORDERTYPE_VT2BITMEX t =
     (case t of LIMIT \<Rightarrow> Some ''Limit'' | MARKET \<Rightarrow> Some ''Market'' | STOP \<Rightarrow> Some ''Stop''
      | FAK \<Rightarrow> None | FOK \<Rightarrow> None)"

definition ORDERTYPE_BITMEX2VT :: "string \<Rightarrow> OrderType option" where
  "ORDERTYPE_BITMEX2VT s =
     (if s = ''Limit'' then Some LIMIT else if s = ''Market'' then Some MARKET
      else if s = ''Stop'' then Some STOP else None)"

definition STATUS_BITMEX2VT :: "string \<Rightarrow> Status option" where
  "STATUS_BITMEX2VT s =
     (if s = ''New'' then Some NOTTRADED
      else if s = ''Partially filled'' then Some PARTTRADED
      else if s = ''Filled'' then Some ALLTRADED
      else if s = ''Canceled'' then Some CANCELLED
      else if s = ''Rejected'' then Some REJECTED
      else None)"

text \<open>
  \<open>table[v]\<close> and \<open>table.get(v)\<close> for a table keyed by strings and a JSON value \<open>v\<close>:
  an unhashable \<open>v\<close> raises, a value that is no string finds nothing.
\<close>

definition lookup_json :: "(string \<Rightarrow> 'a option) \<Rightarrow> json \<Rightarrow> py_error + 'a option" where
  "lookup_json table v =
     (if \<not> py_hashable v then Inl TypeError
      else case v of JStr s \<Rightarrow> Inr (table s) | _ \<Rightarrow> Inr None)"

definition index_json :: "(string \<Rightarrow> 'a option) \<Rightarrow> json \<Rightarrow> py_error + 'a" where
  "index_json table v =
     bind_err (lookup_json table v) (\<lambda>r. case r of None \<Rightarrow> Inl KeyError | Some x \<Rightarrow> Inr x)"

section \<open>Requests, responses and what the gateway emits\<close>

text \<open>
  A naive \<open>datetime\<close> is the number of microseconds since \<open>datetime.min\<close>; a \<open>timedelta\<close>
  is a number of microseconds.  Adding beyond \<open>datetime.max\<close> raises.
\<close>

type_synonym datetime = int

definition datetime_max :: datetime where
  "datetime_max = 315537897599999999"

definition datetime_add :: "datetime \<Rightarrow> int \<Rightarrow> py_error + datetime" where
  "datetime_add t delta =
     (if t + delta < 0 \<or> datetime_max < t + delta then Inl OverflowError else Inr (t + delta))"

text \<open>
  The value of a time parameter of a history page: the text of \<open>isoformat()\<close> or the
  \<open>datetime\<close> object itself.
\<close>

datatype time_param = IsoFormat datetime | DatetimeObject datetime

record history_params =
  p_binSize :: string
  p_symbol :: string
  p_count :: int
  p_startTime :: time_param
  p_endTime :: "time_param option"

text \<open>
  The part of an HTTP response the gateway reads.  \<open>resp_json\<close> is \<open>None\<close> when the body
  is no JSON (\<open>json()\<close> raises).  A header is held with the integer \<open>int()\<close> reads from
  its text, \<open>None\<close> when \<open>int()\<close> rejects the text, under the spelling of its name the
  gateway uses.
\<close>

record response =
  resp_status_code :: int
  resp_text :: string
  resp_json :: "json option"
  resp_headers :: "(string \<times> int option) list"

datatype req_data = DataNone | DataDict "(string \<times> json) list" | DataStr string

record request =
  rq_method :: string
  rq_path :: string
  rq_params :: "(string \<times> json) list option"
  rq_data :: req_data
  rq_headers :: "(string \<times> string) list"
  rq_extra :: "order_data option"
  rq_response :: "response option"

text \<open>
  An exception class is the list of the qualified names of its method resolution order,
  itself first; \<open>issubclass\<close> looks the base up there.
\<close>

type_synonym exception_type = "string list"

definition ConnectionError :: string where
  "ConnectionError = ''requests.exceptions.ConnectionError''"

definition issubclass :: "exception_type \<Rightarrow> string \<Rightarrow> bool" where
  "issubclass cls base = (base \<in> set cls)"

text \<open>
  The log texts of the source, by the place that writes them, with the values they
  interpolate.
\<close>

datatype log_msg =
  LogTooFrequent int
  | LogLocalLimit
  | LogHistoryFailed int string
  | LogHistorySuccess string Interval json json
  | LogException exception_type string
  | LogWsError json
  | LogWsAuthorized

datatype ws_request = AuthKey string int string | Subscribe "string list"

text \<open>
  Calls into the host and the transports, in the order they happen: \<open>gateway.write_log\<close>,
  \<open>gateway.on_order\<close>, \<open>gateway.on_trade\<close>, \<open>add_request\<close> (asynchronous REST call),
  \<open>request\<close> (synchronous REST call), \<open>send_packet\<close>, \<open>sys.stderr.write\<close>.
\<close>

datatype event =
  WriteLog log_msg
  | OnOrder order_data
  | OnTrade trade_data
  | AddRequest request
  | HttpRequest history_params
  | SendPacket ws_request
  | StderrWrite exception_type string

section \<open>BitmexRestApi\<close>

record rest_api =
  gateway_name :: string
  key :: string
  secret :: string
  order_count :: int
  connect_time :: int
  rate_limit_limit :: int
  rate_limit_remaining :: int
  rate_limit_sleep :: int

text \<open>\<open>BitmexRestApi.__init__\<close>.\<close>

definition BitmexRestApi :: "string \<Rightarrow> rest_api" where
  "BitmexRestApi gw =
     \<lparr>gateway_name = gw, key = [], secret = [], order_count = 1000000, connect_time = 0,
      rate_limit_limit = 60, rate_limit_remaining = 60, rate_limit_sleep = 0\<rparr>"

subsection \<open>Rate limit\<close>

text \<open>
  The remaining quota is assigned before the header \<open>Retry-After\<close> is read, so it stands
  when that header cannot be read as an integer.
\<close>

definition update_rate_limit :: "rest_api \<Rightarrow> request \<Rightarrow> py_error option \<times> rest_api" where
  "update_rate_limit api rq =
     (case rq_response rq of
        None \<Rightarrow> (None, api)
      | Some resp \<Rightarrow>
          (case map_of (resp_headers resp) ''x-ratelimit-remaining'' of
             None \<Rightarrow> (Some KeyError, api)
           | Some None \<Rightarrow> (Some ValueError, api)
           | Some (Some remaining) \<Rightarrow>
               let api1 = api\<lparr>rate_limit_remaining := remaining\<rparr> in
               (case map_of (resp_headers resp) ''Retry-After'' of
                  None \<Rightarrow> (None, api1\<lparr>rate_limit_sleep := 0\<rparr>)
                | Some None \<Rightarrow> (Some ValueError, api1)
                | Some (Some sleep) \<Rightarrow>
                    (None,
                     api1\<lparr>rate_limit_sleep := (if sleep \<noteq> 0 then sleep + 1 else sleep)\<rparr>))))"

definition reset_rate_limit :: "rest_api \<Rightarrow> rest_api" where
  "reset_rate_limit api =
     api\<lparr>rate_limit_remaining := min (rate_limit_remaining api + 1) (rate_limit_limit api),
         rate_limit_sleep :=
           (if rate_limit_sleep api \<noteq> 0 then rate_limit_sleep api - 1
            else rate_limit_sleep api)\<rparr>"

definition check_rate_limit :: "rest_api \<Rightarrow> bool \<times> rest_api \<times> event list" where
  "check_rate_limit api =
     (if rate_limit_sleep api \<noteq> 0
        then (False, api, [WriteLog (LogTooFrequent (rate_limit_sleep api))])
      else if rate_limit_remaining api = 0
        then (False, api, [WriteLog LogLocalLimit])
      else (True, api\<lparr>rate_limit_remaining := rate_limit_remaining api - 1\<rparr>, []))"

text \<open>
  A run of the three operations on one \<open>BitmexRestApi\<close>.  A call of \<open>update_rate_limit\<close>
  that raises leaves what it had assigned.
\<close>

datatype rate_call = TryAcquire | Observe request | Tick

fun rate_step :: "rest_api \<Rightarrow> rate_call \<Rightarrow> rest_api" where
  "rate_step api TryAcquire = fst (snd (check_rate_limit api))"
| "rate_step api (Observe rq) = snd (update_rate_limit api rq)"
| "rate_step api Tick = reset_rate_limit api"

definition run_rate_calls :: "rest_api \<Rightarrow> rate_call list \<Rightarrow> rest_api" where
  "run_rate_calls api calls = foldl rate_step api calls"

text \<open>The header values of an observation are not negative.\<close>

fun nonneg_headers :: "rate_call \<Rightarrow> bool" where
  "nonneg_headers (Observe rq) =
     (case rq_response rq of None \<Rightarrow> True
      | Some resp \<Rightarrow>
          list_all (\<lambda>(name, v). case v of None \<Rightarrow> True | Some x \<Rightarrow> 0 \<le> x)
            (resp_headers resp))"
| "nonneg_headers c = True"

subsection \<open>Sending an order\<close>

definition new_order_id :: "rest_api \<Rightarrow> int \<times> rest_api" where
  "new_order_id api = (order_count api + 1, api\<lparr>order_count := order_count api + 1\<rparr>)"

definition order_inst :: "order_request \<Rightarrow> string list" where
  "order_inst req =
     (if req_type req = STOP then [''LastPrice''] else [])
     @ (if req_offset req = CLOSE then [''ReduceOnly''] else [])"

fun join_comma :: "string list \<Rightarrow> string" where
  "join_comma [] = []"
| "join_comma [x] = x"
| "join_comma (x # y # zs) = x @ '','' @ join_comma (y # zs)"

definition order_payload ::
  "order_request \<Rightarrow> string \<Rightarrow> string \<Rightarrow> string \<Rightarrow> (string \<times> json) list" where
  "order_payload req side ord_type orderid =
     [(''symbol'', JStr (req_symbol req)), (''side'', JStr side), (''ordType'', JStr ord_type),
      (''orderQty'', JNum (of_int (py_int (req_volume req)))), (''clOrdID'', JStr orderid)]
     @ (if req_type req = LIMIT then [(''price'', JNum (req_price req))]
        else if req_type req = STOP then [(''stopPx'', JNum (req_price req))]
        else [])
     @ (if order_inst req \<noteq> [] then [(''execInst'', JStr (join_comma (order_inst req)))]
        else [])"

definition send_order ::
  "rest_api \<Rightarrow> order_request \<Rightarrow> (py_error + string) \<times> rest_api \<times> event list" where
  "send_order api req =
     (case check_rate_limit api of
        (ok, api1, evs) \<Rightarrow>
          if \<not> ok then (Inr [], api1, evs)
          else
            (case new_order_id api1 of
               (n, api2) \<Rightarrow>
                 let orderid = str_int (connect_time api2 + n) in
                 (case DIRECTION_VT2BITMEX (req_direction req) of
                    None \<Rightarrow> (Inl KeyError, api2, evs)
                  | Some side \<Rightarrow>
                      (case ORDERTYPE_VT2BITMEX (req_type req) of
                         None \<Rightarrow> (Inl KeyError, api2, evs)
                       | Some ord_type \<Rightarrow>
                           let order = create_order_data req orderid (gateway_name api2);
                               rq = \<lparr>rq_method = ''POST'', rq_path = ''/order'',
                                     rq_params = None,
                                     rq_data = DataDict (order_payload req side ord_type orderid),
                                     rq_headers = [], rq_extra = Some order,
                                     rq_response = None\<rparr>
                           in (Inr (vt_orderid (gateway_name api2) orderid), api2,
                               evs @ [AddRequest rq, OnOrder order])))))"

subsection \<open>Failure of an order request\<close>

text \<open>\<open>BitmexRestApi.on_error\<close>: a log line and the exception detail on stderr.\<close>

definition rest_on_error :: "exception_type \<Rightarrow> string \<Rightarrow> event list" where
  "rest_on_error exception_type exception_value =
     [WriteLog (LogException exception_type exception_value),
      StderrWrite exception_type exception_value]"

text \<open>
  The order object is the one stored in \<open>request.extra\<close>; the assignment to its status is
  seen through the request.  Without an order the assignment raises.
\<close>

definition on_send_order_error ::
  "exception_type \<Rightarrow> string \<Rightarrow> request \<Rightarrow> py_error option \<times> request \<times> event list" where
  "on_send_order_error exception_type exception_value rq =
     (case rq_extra rq of
        None \<Rightarrow> (Some AttributeError, rq, [])
      | Some order \<Rightarrow>
          let order' = order\<lparr>o_status := REJECTED\<rparr>;
              rq' = rq\<lparr>rq_extra := Some order'\<rparr>
          in (None, rq',
              OnOrder order'
              # (if \<not> issubclass exception_type ConnectionError
                 then rest_on_error exception_type exception_value else [])))"

subsection \<open>Signature of a REST request\<close>

text \<open>
  \<open>urlencode\<close> and the hex digest of HMAC-SHA256 belong to the Python library and are
  parameters; \<open>now\<close> is the reading of \<open>time.time()\<close>, taken as a real number, so the
  sum with 30 is exact where the float sum of the source is rounded.  \<open>urlencode\<close> of a
  string that is not empty raises.
\<close>

definition sign ::
  "((string \<times> json) list \<Rightarrow> string) \<Rightarrow> (string \<Rightarrow> string \<Rightarrow> string) \<Rightarrow> real \<Rightarrow> rest_api
    \<Rightarrow> request \<Rightarrow> py_error + request" where
  "sign urlencode hmac_sha256_hex now api rq =
     (let expires = py_int (now + 30);
          path = (case rq_params rq of
                    None \<Rightarrow> rq_path rq
                  | Some ps \<Rightarrow> if ps \<noteq> [] then rq_path rq @ ''?'' @ urlencode ps
                                else rq_path rq)
      in bind_err
           (case rq_data rq of
              DataNone \<Rightarrow> Inr []
            | DataDict d \<Rightarrow> Inr (if d \<noteq> [] then urlencode d else [])
            | DataStr s \<Rightarrow> if s \<noteq> [] then Inl TypeError else Inr [])
           (\<lambda>body.
              let msg = rq_method rq @ ''/api/v1'' @ path @ str_int expires @ body;
                  signature = hmac_sha256_hex (secret api) msg
              in Inr (rq\<lparr>rq_data := DataStr body,
                         rq_headers :=
                           [(''Content-Type'', ''application/x-www-form-urlencoded''),
                            (''Accept'', ''application/json''),
                            (''api-key'', key api),
                            (''api-expires'', str_int expires),
                            (''api-signature'', signature)]\<rparr>)))"

subsection \<open>History query\<close>

record history_request =
  hr_symbol :: string
  hr_exchange :: Exchange
  hr_start :: datetime
  hr_end :: "datetime option"
  hr_interval :: Interval

record bar_data =
  bar_symbol :: string
  bar_exchange :: Exchange
  bar_datetime :: datetime
  bar_interval :: Interval
  bar_volume :: json
  bar_open_price :: json
  bar_high_price :: json
  bar_low_price :: json
  bar_close_price :: json
  bar_gateway_name :: string

definition INTERVAL_VT2BITMEX :: "Interval \<Rightarrow> string option" where
  "INTERVAL_VT2BITMEX i =
     (case i of MINUTE \<Rightarrow> Some ''1m'' | HOUR \<Rightarrow> Some ''1h'' | DAILY \<Rightarrow> Some ''1d''
      | WEEKLY \<Rightarrow> None)"

definition TIMEDELTA_MAP :: "Interval \<Rightarrow> int option" where
  "TIMEDELTA_MAP i =
     (case i of MINUTE \<Rightarrow> Some 60000000 | HOUR \<Rightarrow> Some 3600000000
      | DAILY \<Rightarrow> Some 86400000000 | WEEKLY \<Rightarrow> None)"

text \<open>The query parameters of one page.\<close>

definition history_page_params ::
  "history_request \<Rightarrow> time_param \<Rightarrow> py_error + history_params" where
  "history_page_params req start_time =
     (case INTERVAL_VT2BITMEX (hr_interval req) of
        None \<Rightarrow> Inl KeyError
      | Some bin \<Rightarrow>
          Inr \<lparr>p_binSize = bin, p_symbol = hr_symbol req, p_count = 750,
               p_startTime = start_time, p_endTime = map_option IsoFormat (hr_end req)\<rparr>)"

text \<open>
  One row of a page becomes a bar.  \<open>strptime\<close> is \<open>datetime.strptime\<close> with the format
  of the source, a parameter; it raises on anything but a string.
\<close>

definition parse_bar ::
  "(string \<Rightarrow> py_error + datetime) \<Rightarrow> string \<Rightarrow> history_request \<Rightarrow> json
    \<Rightarrow> py_error + bar_data" where
  "parse_bar strptime gw req d =
     bind_err (getitem d ''timestamp'') (\<lambda>ts.
     bind_err (case ts of JStr s \<Rightarrow> strptime s | _ \<Rightarrow> Inl TypeError) (\<lambda>dt.
     bind_err (getitem d ''volume'') (\<lambda>vol.
     bind_err (getitem d ''open'') (\<lambda>op.
     bind_err (getitem d ''high'') (\<lambda>hi.
     bind_err (getitem d ''low'') (\<lambda>lo.
     bind_err (getitem d ''close'') (\<lambda>cl.
       Inr \<lparr>bar_symbol = hr_symbol req, bar_exchange = hr_exchange req, bar_datetime = dt,
            bar_interval = hr_interval req, bar_volume = vol, bar_open_price = op,
            bar_high_price = hi, bar_low_price = lo, bar_close_price = cl,
            bar_gateway_name = gw\<rparr>)))))))"

fun parse_bars ::
  "(string \<Rightarrow> py_error + datetime) \<Rightarrow> string \<Rightarrow> history_request \<Rightarrow> json list
    \<Rightarrow> py_error + bar_data list" where
  "parse_bars strptime gw req [] = Inr []"
| "parse_bars strptime gw req (d # ds) =
     bind_err (parse_bar strptime gw req d) (\<lambda>bar.
     bind_err (parse_bars strptime gw req ds) (\<lambda>bars. Inr (bar # bars)))"

text \<open>
  The body of the loop after the response has arrived: the history so far with the bars
  of the page, what is logged, and the next start time unless the loop breaks.  A body
  that is true and no list raises at the first row.
\<close>

definition history_page ::
  "(string \<Rightarrow> py_error + datetime) \<Rightarrow> string \<Rightarrow> history_request \<Rightarrow> response
    \<Rightarrow> bar_data list \<Rightarrow> py_error + (bar_data list \<times> event list \<times> time_param option)" where
  "history_page strptime gw req resp history =
     (if resp_status_code resp div 100 \<noteq> 2
        then Inr (history,
                  [WriteLog (LogHistoryFailed (resp_status_code resp) (resp_text resp))], None)
      else
        (case resp_json resp of
           None \<Rightarrow> Inl ValueError
         | Some data \<Rightarrow>
             if \<not> py_truthy data then Inr (history, [], None)
             else
               (case data of
                  JArr rows \<Rightarrow>
                    bind_err (parse_bars strptime gw req rows) (\<lambda>bars.
                    bind_err (getitem (hd rows) ''timestamp'') (\<lambda>begin.
                    bind_err (getitem (last rows) ''timestamp'') (\<lambda>end.
                      let logs = [WriteLog (LogHistorySuccess (hr_symbol req)
                                              (hr_interval req) begin end)]
                      in if int (length rows) < 750 then Inr (history @ bars, logs, None)
                         else
                           bind_err
                             (case TIMEDELTA_MAP (hr_interval req) of
                                None \<Rightarrow> Inl KeyError
                              | Some delta \<Rightarrow> datetime_add (bar_datetime (last bars)) delta)
                             (\<lambda>t. Inr (history @ bars, logs, Some (DatetimeObject t))))))
                | _ \<Rightarrow> Inl TypeError)))"

text \<open>
  The loop.  The endpoint is the list of the responses it will give, in order; a request
  to an endpoint that has none left fails in the transport.  The result carries the
  responses that were never asked for.
\<close>

fun history_loop ::
  "(string \<Rightarrow> py_error + datetime) \<Rightarrow> string \<Rightarrow> history_request \<Rightarrow> response list
    \<Rightarrow> bar_data list \<Rightarrow> time_param
    \<Rightarrow> (py_error + bar_data list) \<times> event list \<times> response list" where
  "history_loop strptime gw req [] history start_time =
     (case history_page_params req start_time of
        Inl e \<Rightarrow> (Inl e, [], [])
      | Inr params \<Rightarrow> (Inl ConnectionFailure, [HttpRequest params], []))"
| "history_loop strptime gw req (resp # rest) history start_time =
     (case history_page_params req start_time of
        Inl e \<Rightarrow> (Inl e, [], resp # rest)
      | Inr params \<Rightarrow>
          (case history_page strptime gw req resp history of
             Inl e \<Rightarrow> (Inl e, [HttpRequest params], rest)
           | Inr (history', logs, None) \<Rightarrow> (Inr history', HttpRequest params # logs, rest)
           | Inr (history', logs, Some next_start) \<Rightarrow>
               (case history_loop strptime gw req rest history' next_start of
                  (r, evs, left) \<Rightarrow> (r, HttpRequest params # logs @ evs, left))))"

text \<open>\<open>query_history\<close> returns \<open>None\<close> when the rate limit check fails.\<close>

definition query_history ::
  "(string \<Rightarrow> py_error + datetime) \<Rightarrow> rest_api \<Rightarrow> history_request \<Rightarrow> response list
    \<Rightarrow> (py_error + bar_data list option) \<times> rest_api \<times> event list \<times> response list" where
  "query_history strptime api req endpoint =
     (case check_rate_limit api of
        (ok, api1, evs) \<Rightarrow>
          if \<not> ok then (Inr None, api1, evs, endpoint)
          else
            (case history_loop strptime (gateway_name api1) req endpoint []
                    (IsoFormat (hr_start req)) of
               (r, evs', left) \<Rightarrow>
                 ((case r of Inl e \<Rightarrow> Inl e | Inr history \<Rightarrow> Inr (Some history)),
                  api1, evs @ evs', left)))"

text \<open>The parameters of the synchronous page requests among the events, in order.\<close>

fun page_requests :: "event list \<Rightarrow> history_params list" where
  "page_requests [] = []"
| "page_requests (HttpRequest p # evs) = p # page_requests evs"
| "page_requests (e # evs) = page_requests evs"

section \<open>BitmexWebsocketApi\<close>

text \<open>
  The order cache, the set of trade ids already delivered and the flag \<open>active\<close>.  Cache
  and set are keyed by \<open>py_key\<close> of the Python key.  The tick and account caches belong to
  handlers that are not embedded here.
\<close>

record ws_api =
  ws_gateway_name :: string
  ws_key :: string
  ws_secret :: string
  ws_orders :: "json \<Rightarrow> order_data option"
  ws_trades :: "json set"
  ws_active :: bool

type_synonym handler_result = "py_error option \<times> ws_api \<times> event list"

definition authenticate :: "(string \<Rightarrow> string \<Rightarrow> string) \<Rightarrow> real \<Rightarrow> ws_api \<Rightarrow> event list" where
  "authenticate hmac_sha256_hex now ws =
     (let expires = py_int now;
          msg = ''GET'' @ ''/realtime'' @ str_int expires;
          signature = hmac_sha256_hex (ws_secret ws) msg
      in [SendPacket (AuthKey (ws_key ws) expires signature)])"

definition subscribe_topic :: "event list" where
  "subscribe_topic =
     [SendPacket (Subscribe [''instrument'', ''trade'', ''orderBook10'', ''execution'',
                             ''order'', ''position'', ''margin''])]"

subsection \<open>Executions\<close>

text \<open>The \<open>TradeData\<close> of an execution record, its arguments evaluated in the order written.\<close>

definition build_trade :: "string \<Rightarrow> json \<Rightarrow> json \<Rightarrow> py_error + trade_data" where
  "build_trade gw d tradeid =
     bind_err (getitem d ''clOrdID'') (\<lambda>cl.
     bind_err (if py_truthy cl then getitem d ''clOrdID'' else getitem d ''orderID'') (\<lambda>orderid.
     bind_err (getitem d ''symbol'') (\<lambda>smb.
     bind_err (getitem d ''side'') (\<lambda>side.
     bind_err (index_json DIRECTION_BITMEX2VT side) (\<lambda>dir.
     bind_err (getitem d ''lastPx'') (\<lambda>px.
     bind_err (getitem d ''lastQty'') (\<lambda>qty.
     bind_err (getitem d ''timestamp'') (\<lambda>ts.
     bind_err (slice_11_19 ts) (\<lambda>tm.
       Inr \<lparr>t_symbol = smb, t_exchange = BITMEX, t_orderid = orderid, t_tradeid = tradeid,
            t_direction = dir, t_price = px, t_volume = qty, t_time = tm,
            t_gateway_name = gw\<rparr>)))))))))"

definition on_trade :: "ws_api \<Rightarrow> json \<Rightarrow> handler_result" where
  "on_trade ws d =
     (case getitem d ''lastQty'' of
        Inl e \<Rightarrow> (Some e, ws, [])
      | Inr qty \<Rightarrow>
          if \<not> py_truthy qty then (None, ws, [])
          else
            (case getitem d ''side'' of
               Inl e \<Rightarrow> (Some e, ws, [])
             | Inr side \<Rightarrow>
                 if \<not> py_truthy side then (None, ws, [])
                 else
                   (case getitem d ''execID'' of
                      Inl e \<Rightarrow> (Some e, ws, [])
                    | Inr tradeid \<Rightarrow>
                        if \<not> py_hashable tradeid then (Some TypeError, ws, [])
                        else if py_key tradeid \<in> ws_trades ws then (None, ws, [])
                        else
                          let ws' = ws\<lparr>ws_trades := insert (py_key tradeid) (ws_trades ws)\<rparr>
                          in (case build_trade (ws_gateway_name ws) d tradeid of
                                Inl e \<Rightarrow> (Some e, ws', [])
                              | Inr trade \<Rightarrow> (None, ws', [OnTrade trade])))))"

subsection \<open>Orders\<close>

text \<open>The \<open>OrderData\<close> of the first sighting of an order.\<close>

definition build_order :: "string \<Rightarrow> json \<Rightarrow> json \<Rightarrow> py_error + order_data" where
  "build_order gw d sysid =
     bind_err (getitem d ''clOrdID'') (\<lambda>cl.
     bind_err (if py_truthy cl then getitem d ''clOrdID'' else Inr sysid) (\<lambda>orderid.
     bind_err (getitem d ''symbol'') (\<lambda>smb.
     bind_err (getitem d ''ordType'') (\<lambda>ot.
     bind_err (index_json ORDERTYPE_BITMEX2VT ot) (\<lambda>ty.
     bind_err (getitem d ''side'') (\<lambda>side.
     bind_err (index_json DIRECTION_BITMEX2VT side) (\<lambda>dir.
     bind_err (getitem d ''price'') (\<lambda>px.
     bind_err (getitem d ''orderQty'') (\<lambda>qty.
     bind_err (getitem d ''timestamp'') (\<lambda>ts.
     bind_err (slice_11_19 ts) (\<lambda>tm.
       Inr (OrderData smb BITMEX ty orderid dir px qty tm gw))))))))))))"

text \<open>
  The two assignments to the order in the cache and the emission of its copy.  The first
  assignment stands when the second one raises.  At the first sighting the new order is
  in the cache before the assignments.
\<close>

definition update_order :: "ws_api \<Rightarrow> json \<Rightarrow> json \<Rightarrow> order_data \<Rightarrow> handler_result" where
  "update_order ws d sysid order =
     (case dict_get d ''cumQty'' (o_traded order) of
        Inl e \<Rightarrow> (Some e, ws, [])
      | Inr traded \<Rightarrow>
          let order1 = order\<lparr>o_traded := traded\<rparr>;
              ws1 = ws\<lparr>ws_orders := (ws_orders ws)(py_key sysid \<mapsto> order1)\<rparr>
          in (case bind_err (getitem d ''ordStatus'') (lookup_json STATUS_BITMEX2VT) of
                Inl e \<Rightarrow> (Some e, ws1, [])
              | Inr st \<Rightarrow>
                  let order2 = order1\<lparr>o_status :=
                                 (case st of None \<Rightarrow> o_status order1 | Some s \<Rightarrow> s)\<rparr>;
                      ws2 = ws\<lparr>ws_orders := (ws_orders ws)(py_key sysid \<mapsto> order2)\<rparr>
                  in (None, ws2, [OnOrder order2])))"

definition on_order :: "ws_api \<Rightarrow> json \<Rightarrow> handler_result" where
  "on_order ws d =
     (case py_contains ''ordStatus'' d of
        Inl e \<Rightarrow> (Some e, ws, [])
      | Inr has_status \<Rightarrow>
          if \<not> has_status then (None, ws, [])
          else
            (case getitem d ''orderID'' of
               Inl e \<Rightarrow> (Some e, ws, [])
             | Inr sysid \<Rightarrow>
                 if \<not> py_hashable sysid then (Some TypeError, ws, [])
                 else
                   (case ws_orders ws (py_key sysid) of
                      Some order \<Rightarrow> update_order ws d sysid order
                    | None \<Rightarrow>
                        (case build_order (ws_gateway_name ws) d sysid of
                           Inl e \<Rightarrow> (Some e, ws, [])
                         | Inr order \<Rightarrow>
                             update_order
                               (ws\<lparr>ws_orders := (ws_orders ws)(py_key sysid \<mapsto> order)\<rparr>)
                               d sysid order))))"

subsection \<open>Dispatch of inbound packets\<close>

text \<open>One call of the handler for each record of a packet; a call that raises ends it.\<close>

fun run_callback ::
  "(ws_api \<Rightarrow> json \<Rightarrow> handler_result) \<Rightarrow> ws_api \<Rightarrow> json list \<Rightarrow> handler_result" where
  "run_callback callback ws [] = (None, ws, [])"
| "run_callback callback ws (d # ds) =
     (case callback ws d of
        (Some e, ws', evs) \<Rightarrow> (Some e, ws', evs)
      | (None, ws', evs) \<Rightarrow>
          (case run_callback callback ws' ds of (r, ws'', evs') \<Rightarrow> (r, ws'', evs @ evs')))"

text \<open>
  The table \<open>self.callbacks\<close>.  The handlers of the topics \<open>trade\<close>, \<open>orderBook10\<close>,
  \<open>position\<close>, \<open>margin\<close> and \<open>instrument\<close> are the parameter \<open>others\<close>.
\<close>

definition callbacks ::
  "(string \<Rightarrow> ws_api \<Rightarrow> json \<Rightarrow> handler_result) \<Rightarrow> string
    \<Rightarrow> (ws_api \<Rightarrow> json \<Rightarrow> handler_result) option" where
  "callbacks others name =
     (if name = ''execution'' then Some on_trade
      else if name = ''order'' then Some on_order
      else if name \<in> set [''trade'', ''orderBook10'', ''position'', ''margin'', ''instrument'']
        then Some (others name)
      else None)"

text \<open>The three branches of \<open>on_packet\<close>: an error notice, an acknowledgment, records of a topic.\<close>

definition on_packet_error :: "ws_api \<Rightarrow> json \<Rightarrow> handler_result" where
  "on_packet_error ws packet =
     (case getitem packet ''error'' of
        Inl e \<Rightarrow> (Some e, ws, [])
      | Inr err \<Rightarrow>
          (case py_contains ''not valid'' err of
             Inl e \<Rightarrow> (Some e, ws, [WriteLog (LogWsError err)])
           | Inr invalid \<Rightarrow>
               (None, (if invalid then ws\<lparr>ws_active := False\<rparr> else ws),
                [WriteLog (LogWsError err)])))"

definition on_packet_request :: "ws_api \<Rightarrow> json \<Rightarrow> handler_result" where
  "on_packet_request ws packet =
     (case getitem packet ''request'' of
        Inl e \<Rightarrow> (Some e, ws, [])
      | Inr req \<Rightarrow>
          (case getitem packet ''success'' of
             Inl e \<Rightarrow> (Some e, ws, [])
           | Inr success \<Rightarrow>
               if \<not> py_truthy success then (None, ws, [])
               else
                 (case getitem req ''op'' of
                    Inl e \<Rightarrow> (Some e, ws, [])
                  | Inr op \<Rightarrow>
                      if op = JStr ''authKey''
                        then (None, ws, WriteLog LogWsAuthorized # subscribe_topic)
                      else (None, ws, []))))"

definition on_packet_table ::
  "(string \<Rightarrow> ws_api \<Rightarrow> json \<Rightarrow> handler_result) \<Rightarrow> ws_api \<Rightarrow> json \<Rightarrow> handler_result" where
  "on_packet_table others ws packet =
     (case bind_err (getitem packet ''table'') (index_json (callbacks others)) of
        Inl e \<Rightarrow> (Some e, ws, [])
      | Inr callback \<Rightarrow>
          (case getitem packet ''data'' of
             Inl e \<Rightarrow> (Some e, ws, [])
           | Inr (JArr ds) \<Rightarrow> run_callback callback ws ds
           | Inr data \<Rightarrow> callback ws data))"

definition on_packet ::
  "(string \<Rightarrow> ws_api \<Rightarrow> json \<Rightarrow> handler_result) \<Rightarrow> ws_api \<Rightarrow> json \<Rightarrow> handler_result" where
  "on_packet others ws packet =
     (case py_contains ''error'' packet of
        Inl e \<Rightarrow> (Some e, ws, [])
      | Inr has_error \<Rightarrow>
          if has_error then on_packet_error ws packet
          else
            (case py_contains ''request'' packet of
               Inl e \<Rightarrow> (Some e, ws, [])
             | Inr has_request \<Rightarrow>
                 if has_request then on_packet_request ws packet
                 else
                   (case py_contains ''table'' packet of
                      Inl e \<Rightarrow> (Some e, ws, [])
                    | Inr has_table \<Rightarrow>
                        if has_table then on_packet_table others ws packet
                        else (None, ws, []))))"

text \<open>A run of packets; a packet whose handling raises leaves what it had changed.\<close>

fun on_packets ::
  "(string \<Rightarrow> ws_api \<Rightarrow> json \<Rightarrow> handler_result) \<Rightarrow> ws_api \<Rightarrow> json list
    \<Rightarrow> ws_api \<times> event list" where
  "on_packets others ws [] = (ws, [])"
| "on_packets others ws (p # ps) =
     (case on_packet others ws p of
        (r, ws', evs) \<Rightarrow>
          (case on_packets others ws' ps of (ws'', evs') \<Rightarrow> (ws'', evs @ evs')))"

text \<open>
  Modelled from the spec: the reconnect loop of \<open>WebsocketClient\<close> (\<open>vnpy.api.websocket\<close>)
  is not in the source.  On a disconnect the whole state machine restarts from
  Disconnected, by connecting again; a session in the terminal Error state, the one whose
  flag \<open>active\<close> is cleared, stops retrying.
\<close>

datatype session_state = Disconnected | Connecting | Authenticating | Subscribed | Error

definition after_disconnect :: "ws_api \<Rightarrow> session_state" where
  "after_disconnect ws = (if ws_active ws then Connecting else Error)"

text \<open>The trades among the events, in order.\<close>

fun emitted_trades :: "event list \<Rightarrow> trade_data list" where
  "emitted_trades [] = []"
| "emitted_trades (OnTrade t # evs) = t # emitted_trades evs"
| "emitted_trades (e # evs) = emitted_trades evs"

section \<open>Execution records in the words of the specification\<close>

text \<open>
  A record has zero fill quantity when its \<open>lastQty\<close> is there and false (\<open>0\<close>), and an
  absent side when its \<open>side\<close> is missing or false (null, empty).
\<close>

definition no_fill_quantity :: "json \<Rightarrow> bool" where
  "no_fill_quantity d = (case getitem d ''lastQty'' of Inr q \<Rightarrow> \<not> py_truthy q | Inl e \<Rightarrow> False)"

definition absent_side :: "json \<Rightarrow> bool" where
  "absent_side d = (case getitem d ''side'' of Inr sd \<Rightarrow> \<not> py_truthy sd | Inl e \<Rightarrow> True)"

text \<open>
  A record is filtered out when the handler returns on its first test: \<open>lastQty\<close> is
  there and false, or is true with a \<open>side\<close> that is there and false.
\<close>

definition filtered_out :: "json \<Rightarrow> bool" where
  "filtered_out d =
     (case getitem d ''lastQty'' of
        Inl e \<Rightarrow> False
      | Inr q \<Rightarrow>
          \<not> py_truthy q
          \<or> (case getitem d ''side'' of Inl e \<Rightarrow> False | Inr sd \<Rightarrow> \<not> py_truthy sd))"

text \<open>
  The key of the trade id of a record, and the trade the handler builds from it.  A fill
  is a record that is not filtered out, has a trade id that can be a member of a set, and
  carries every field the trade needs.
\<close>

definition exec_key :: "json \<Rightarrow> json option" where
  "exec_key d =
     (case getitem d ''execID'' of
        Inr v \<Rightarrow> if py_hashable v then Some (py_key v) else None
      | Inl e \<Rightarrow> None)"

definition fill_trade :: "string \<Rightarrow> json \<Rightarrow> trade_data option" where
  "fill_trade gw d =
     (case getitem d ''execID'' of
        Inr v \<Rightarrow> (case build_trade gw d v of Inr t \<Rightarrow> Some t | Inl e \<Rightarrow> None)
      | Inl e \<Rightarrow> None)"

definition is_fill :: "string \<Rightarrow> json \<Rightarrow> bool" where
  "is_fill gw d =
     (\<not> no_fill_quantity d \<and> \<not> absent_side d \<and> exec_key d \<noteq> None \<and> fill_trade gw d \<noteq> None)"

definition trade_key :: "trade_data \<Rightarrow> json" where
  "trade_key t = py_key (t_tradeid t)"

section \<open>Sample inputs\<close>

text \<open>
  A mock history endpoint: every row carries the same timestamp, and \<open>mock_strptime\<close>
  stands in for \<open>datetime.strptime\<close> on that one text (midnight of 2020-01-01).
\<close>

definition mock_strptime :: "string \<Rightarrow> py_error + datetime" where
  "mock_strptime s =
     (if s = ''2020-01-01T00:00:00.000Z'' then Inr 63713433600000000 else Inl ValueError)"

definition mock_row :: json where
  "mock_row =
     JObj [(''timestamp'', JStr ''2020-01-01T00:00:00.000Z''), (''symbol'', JStr ''XBTUSD''),
           (''open'', JNum 7200), (''high'', JNum 7210), (''low'', JNum 7190),
           (''close'', JNum 7205), (''volume'', JNum 1000)]"

definition mock_page :: "nat \<Rightarrow> response" where
  "mock_page n =
     \<lparr>resp_status_code = 200, resp_text = [], resp_json = Some (JArr (replicate n mock_row)),
      resp_headers = []\<rparr>"

definition mock_request :: history_request where
  "mock_request =
     \<lparr>hr_symbol = ''XBTUSD'', hr_exchange = BITMEX, hr_start = 63713433600000000,
      hr_end = None, hr_interval = MINUTE\<rparr>"

definition mock_bar :: bar_data where
  "mock_bar =
     \<lparr>bar_symbol = ''XBTUSD'', bar_exchange = BITMEX, bar_datetime = 63713433600000000,
      bar_interval = MINUTE, bar_volume = JNum 1000, bar_open_price = JNum 7200,
      bar_high_price = JNum 7210, bar_low_price = JNum 7190, bar_close_price = JNum 7205,
      bar_gateway_name = ''BITMEX''\<rparr>"

text \<open>An order request, the order made of it, and the request that carries the order.\<close>

definition sample_order_request :: order_request where
  "sample_order_request =
     \<lparr>req_symbol = ''XBTUSD'', req_exchange = BITMEX, req_direction = LONG,
      req_type = LIMIT, req_volume = 10, req_price = 7200, req_offset = NONE\<rparr>"

definition sample_order :: order_data where
  "sample_order = create_order_data sample_order_request ''1000001'' ''BITMEX''"

definition sample_request :: request where
  "sample_request =
     \<lparr>rq_method = ''POST'', rq_path = ''/order'', rq_params = None,
      rq_data = DataDict (order_payload sample_order_request ''Buy'' ''Limit'' ''1000001''),
      rq_headers = [], rq_extra = Some sample_order, rq_response = None\<rparr>"

text \<open>The same request with a response whose headers report 61 requests remaining.\<close>

definition sample_answered_request :: request where
  "sample_answered_request =
     sample_request
       \<lparr>rq_response :=
          Some \<lparr>resp_status_code = 200, resp_text = [], resp_json = None,
                resp_headers = [(''x-ratelimit-remaining'', Some 61)]\<rparr>\<rparr>"

text \<open>The exception classes \<open>requests.ConnectionError\<close> and \<open>ValueError\<close>.\<close>

definition ConnectionError_class :: exception_type where
  "ConnectionError_class =
     [''requests.exceptions.ConnectionError'', ''requests.exceptions.RequestException'',
      ''OSError'', ''Exception'', ''BaseException'', ''object'']"

definition ValueError_class :: exception_type where
  "ValueError_class = [''ValueError'', ''Exception'', ''BaseException'', ''object'']"

text \<open>A running stream session with empty caches, and execution records.\<close>

definition sample_ws :: ws_api where
  "sample_ws =
     \<lparr>ws_gateway_name = ''BITMEX'', ws_key = ''key'', ws_secret = ''secret'',
      ws_orders = Map.empty, ws_trades = {}, ws_active = True\<rparr>"

definition sample_fill :: json where
  "sample_fill =
     JObj [(''execID'', JStr ''e1''), (''orderID'', JStr ''o1''), (''clOrdID'', JStr ''1000001''),
           (''symbol'', JStr ''XBTUSD''), (''side'', JStr ''Buy''), (''lastQty'', JNum 10),
           (''lastPx'', JNum 7200), (''timestamp'', JStr ''2020-01-01T00:00:00.000Z'')]"

text \<open>The same trade id delivered again, with another price and time.\<close>

definition sample_fill_again :: json where
  "sample_fill_again =
     JObj [(''execID'', JStr ''e1''), (''orderID'', JStr ''o1''), (''clOrdID'', JStr ''1000001''),
           (''symbol'', JStr ''XBTUSD''), (''side'', JStr ''Buy''), (''lastQty'', JNum 10),
           (''lastPx'', JNum 7300), (''timestamp'', JStr ''2020-01-01T00:00:05.000Z'')]"

text \<open>A funding record under the same id: no quantity, no side.\<close>

definition sample_funding :: json where
  "sample_funding =
     JObj [(''execID'', JStr ''e1''), (''orderID'', JStr ''o1''), (''clOrdID'', JStr []),
           (''symbol'', JStr ''XBTUSD''), (''side'', JStr []), (''lastQty'', JNum 0),
           (''lastPx'', JNum 7200), (''timestamp'', JStr ''2020-01-01T00:00:00.000Z'')]"

definition sample_trade :: trade_data where
  "sample_trade =
     \<lparr>t_symbol = JStr ''XBTUSD'', t_exchange = BITMEX, t_orderid = JStr ''1000001'',
      t_tradeid = JStr ''e1'', t_direction = LONG, t_price = JNum 7200, t_volume = JNum 10,
      t_time = JStr ''00:00:00'', t_gateway_name = ''BITMEX''\<rparr>"

text \<open>
  A fill under another id that lacks the field \<open>clOrdID\<close>, and the same fill with it.
\<close>

definition incomplete_fill :: json where
  "incomplete_fill =
     JObj [(''execID'', JStr ''e2''), (''orderID'', JStr ''o2''),
           (''symbol'', JStr ''XBTUSD''), (''side'', JStr ''Sell''), (''lastQty'', JNum 5),
           (''lastPx'', JNum 7250), (''timestamp'', JStr ''2020-01-01T00:01:00.000Z'')]"

definition complete_fill :: json where
  "complete_fill =
     JObj [(''execID'', JStr ''e2''), (''orderID'', JStr ''o2''), (''clOrdID'', JStr []),
           (''symbol'', JStr ''XBTUSD''), (''side'', JStr ''Sell''), (''lastQty'', JNum 5),
           (''lastPx'', JNum 7250), (''timestamp'', JStr ''2020-01-01T00:01:00.000Z'')]"

text \<open>An order in the cache under its venue id, and order records for it.\<close>

definition cached_order :: order_data where
  "cached_order =
     (OrderData (JStr ''XBTUSD'') BITMEX LIMIT (JStr ''1000001'') LONG (JNum 7200) (JNum 10)
        (JStr ''00:00:00'') ''BITMEX'')\<lparr>o_status := NOTTRADED\<rparr>"

definition ws_with_order :: ws_api where
  "ws_with_order = sample_ws\<lparr>ws_orders := [JStr ''o1'' \<mapsto> cached_order]\<rparr>"

definition order_update :: json where
  "order_update =
     JObj [(''orderID'', JStr ''o1''), (''ordStatus'', JStr ''PartiallyFilled''),
           (''cumQty'', JNum 4)]"

definition order_update_no_status :: json where
  "order_update_no_status = JObj [(''orderID'', JStr ''o1''), (''cumQty'', JNum 4)]"

definition order_filled :: json where
  "order_filled =
     JObj [(''orderID'', JStr ''o1''), (''ordStatus'', JStr ''Filled''), (''cumQty'', JNum 10)]"

text \<open>
  Handlers that do nothing, in the place of the handlers of the topics \<open>trade\<close>,
  \<open>orderBook10\<close>, \<open>position\<close>, \<open>margin\<close> and \<open>instrument\<close>; and inbound packets.
\<close>

definition passive_handlers :: "string \<Rightarrow> ws_api \<Rightarrow> json \<Rightarrow> handler_result" where
  "passive_handlers name ws d = (None, ws, [])"

definition invalid_key_notice :: json where
  "invalid_key_notice = JObj [(''error'', JStr ''Signature not valid.''), (''status'', JNum 401)]"

definition rate_notice :: json where
  "rate_notice = JObj [(''error'', JStr ''Rate limit exceeded''), (''status'', JNum 429)]"

definition auth_ack :: json where
  "auth_ack =
     JObj [(''success'', JBool True),
           (''request'', JObj [(''op'', JStr ''authKey''), (''args'', JArr [])])]"

section \<open>Rate limit: bounds of the state\<close>

lemma map_of_nonneg:
  "map_of hs name = Some (Some v) \<Longrightarrow>
   list_all (\<lambda>(name, v). case v of None \<Rightarrow> True | Some x \<Rightarrow> (0::int) \<le> x) hs \<Longrightarrow> 0 \<le> v"
  by (auto dest!: map_of_SomeD simp add: list_all_iff)

lemma rate_step_lower_bounds:
  assumes "0 \<le> rate_limit_remaining api" and "0 \<le> rate_limit_sleep api"
    and "0 \<le> rate_limit_limit api" and "nonneg_headers c"
  shows "0 \<le> rate_limit_remaining (rate_step api c)
    \<and> 0 \<le> rate_limit_sleep (rate_step api c)
    \<and> rate_limit_limit (rate_step api c) = rate_limit_limit api"
proof (cases c)
  case TryAcquire
  with assms show ?thesis by (simp add: check_rate_limit_def)
next
  case (Observe rq)
  with assms show ?thesis
    by (auto simp add: update_rate_limit_def Let_def split: option.splits
        dest: map_of_nonneg)
next
  case Tick
  with assms show ?thesis by (simp add: reset_rate_limit_def)
qed

text \<open>
  What every run keeps: the remaining quota and the penalty never go below zero, and the
  limit stays what it was.
\<close>

lemma run_rate_calls_lower_bounds:
  "0 \<le> rate_limit_remaining api \<Longrightarrow> 0 \<le> rate_limit_sleep api \<Longrightarrow>
   0 \<le> rate_limit_limit api \<Longrightarrow> list_all nonneg_headers calls \<Longrightarrow>
   0 \<le> rate_limit_remaining (run_rate_calls api calls)
   \<and> 0 \<le> rate_limit_sleep (run_rate_calls api calls)
   \<and> rate_limit_limit (run_rate_calls api calls) = rate_limit_limit api"
proof (induction calls arbitrary: api)
  case Nil
  then show ?case by (simp add: run_rate_calls_def)
next
  case (Cons c calls)
  from Cons.prems have step: "0 \<le> rate_limit_remaining (rate_step api c)"
    "0 \<le> rate_limit_sleep (rate_step api c)"
    "rate_limit_limit (rate_step api c) = rate_limit_limit api"
    using rate_step_lower_bounds [of api c] by simp_all
  from Cons.prems have "list_all nonneg_headers calls" by simp
  with Cons.IH [of "rate_step api c"] step Cons.prems(3)
  show ?case by (simp add: run_rate_calls_def)
qed

text \<open>
  C1.  The claim: after every call of a run of \<open>check_rate_limit\<close>, \<open>update_rate_limit\<close>
  (with header values that are not negative) and \<open>reset_rate_limit\<close> from the initial
  state, the remaining quota lies between 0 and the limit and the penalty is not negative.
  The lower bounds hold (\<open>run_rate_calls_lower_bounds\<close>).  The upper bound fails at the
  first observation of a response that reports 61 requests remaining: the remaining quota
  is 61 and the limit is still 60.
\<close>

theorem observed_remaining_exceeds_limit:
  "nonneg_headers (Observe sample_answered_request)
   \<and> rate_limit_remaining
        (run_rate_calls (BitmexRestApi ''BITMEX'') [Observe sample_answered_request]) = 61
   \<and> rate_limit_limit
        (run_rate_calls (BitmexRestApi ''BITMEX'') [Observe sample_answered_request]) = 60"
  by (simp add: run_rate_calls_def update_rate_limit_def sample_answered_request_def
      BitmexRestApi_def)

section \<open>Failure of an order request\<close>

text \<open>
  C2 as stated fails: for the exception class \<open>requests.ConnectionError\<close> the order of the
  request is marked rejected and handed to the host.
\<close>

theorem connection_error_rejects_order:
  "issubclass ConnectionError_class ConnectionError
   \<and> on_send_order_error ConnectionError_class ''connection refused'' sample_request
       = (None,
          sample_request\<lparr>rq_extra := Some (sample_order\<lparr>o_status := REJECTED\<rparr>)\<rparr>,
          [OnOrder (sample_order\<lparr>o_status := REJECTED\<rparr>)])"
  by (simp add: on_send_order_error_def Let_def issubclass_def ConnectionError_class_def
      ConnectionError_def sample_request_def)

text \<open>
  C2, amended.  For every exception class, \<open>on_send_order_error\<close> sets the status of the
  order of the request to rejected and hands the order to the host; the exception is
  recorded (log line and stderr) exactly when its class is no subclass of
  \<open>ConnectionError\<close>.
\<close>

theorem on_send_order_error_rejects:
  "rq_extra rq = Some order \<Longrightarrow>
   on_send_order_error exception_type exception_value rq =
     (None, rq\<lparr>rq_extra := Some (order\<lparr>o_status := REJECTED\<rparr>)\<rparr>,
      OnOrder (order\<lparr>o_status := REJECTED\<rparr>)
      # (if issubclass exception_type ConnectionError then []
         else rest_on_error exception_type exception_value))"
  by (simp add: on_send_order_error_def Let_def)

theorem on_send_order_error_rejects_witness:
  "rq_extra sample_request = Some sample_order
   \<and> on_send_order_error ValueError_class ''bad value'' sample_request
       = (None,
          sample_request\<lparr>rq_extra := Some (sample_order\<lparr>o_status := REJECTED\<rparr>)\<rparr>,
          [OnOrder (sample_order\<lparr>o_status := REJECTED\<rparr>),
           WriteLog (LogException ValueError_class ''bad value''),
           StderrWrite ValueError_class ''bad value''])"
proof -
  have h: "rq_extra sample_request = Some sample_order"
    by (simp add: sample_request_def)
  have n: "\<not> issubclass ValueError_class ConnectionError"
    by (simp add: issubclass_def ValueError_class_def ConnectionError_def)
  from on_send_order_error_rejects [OF h, of ValueError_class "''bad value''"] h n
  show ?thesis by (simp add: rest_on_error_def)
qed

section \<open>Sending an order under a denying rate limit\<close>

text \<open>
  C3.  When the rate limit check denies (a penalty is running, or nothing is remaining),
  \<open>send_order\<close> returns the empty string, leaves the state as it was (no order id is
  taken), and does nothing but write the log line of the check: no request is added, no
  order is made or handed to the host.
\<close>

theorem send_order_denied:
  "0 < rate_limit_sleep api \<or> rate_limit_remaining api = 0 \<Longrightarrow>
   send_order api req =
     (Inr [], api,
      [WriteLog (if rate_limit_sleep api \<noteq> 0 then LogTooFrequent (rate_limit_sleep api)
                 else LogLocalLimit)])"
  by (auto simp add: send_order_def check_rate_limit_def)

theorem send_order_denied_witness:
  "(0 < rate_limit_sleep ((BitmexRestApi ''BITMEX'')\<lparr>rate_limit_remaining := 0\<rparr>)
    \<or> rate_limit_remaining ((BitmexRestApi ''BITMEX'')\<lparr>rate_limit_remaining := 0\<rparr>) = 0)
   \<and> send_order ((BitmexRestApi ''BITMEX'')\<lparr>rate_limit_remaining := 0\<rparr>)
        sample_order_request
       = (Inr [], (BitmexRestApi ''BITMEX'')\<lparr>rate_limit_remaining := 0\<rparr>,
          [WriteLog LogLocalLimit])"
proof -
  have h: "0 < rate_limit_sleep ((BitmexRestApi ''BITMEX'')\<lparr>rate_limit_remaining := 0\<rparr>)
      \<or> rate_limit_remaining ((BitmexRestApi ''BITMEX'')\<lparr>rate_limit_remaining := 0\<rparr>) = 0"
    by simp
  have z: "rate_limit_sleep ((BitmexRestApi ''BITMEX'')\<lparr>rate_limit_remaining := 0\<rparr>) = 0"
    by (simp add: BitmexRestApi_def)
  from send_order_denied [OF h, of sample_order_request] h z
  show ?thesis by simp
qed

section \<open>History query\<close>

subsection \<open>Pages\<close>

lemma parse_bars_replicate:
  "parse_bar strptime gw req d = Inr bar \<Longrightarrow>
   parse_bars strptime gw req (replicate n d) = Inr (replicate n bar)"
  by (induction n) (simp_all add: bind_err_def)

lemma parse_bars_length:
  "parse_bars strptime gw req rows = Inr bars \<Longrightarrow> length bars = length rows"
  by (induction rows arbitrary: bars) (auto simp add: bind_err_def split: sum.splits)

lemma parse_bar_timestamp:
  "parse_bar strptime gw req d = Inr bar \<Longrightarrow> \<exists>ts. getitem d ''timestamp'' = Inr ts"
  by (auto simp add: parse_bar_def bind_err_def split: sum.splits)

lemma parse_bars_timestamp:
  "parse_bars strptime gw req rows = Inr bars \<Longrightarrow> d \<in> set rows \<Longrightarrow>
   \<exists>ts. getitem d ''timestamp'' = Inr ts"
proof (induction rows arbitrary: bars)
  case Nil
  then show ?case by simp
next
  case (Cons r rows)
  from Cons.prems(1) obtain b bs where b: "parse_bar strptime gw req r = Inr b"
    and bs: "parse_bars strptime gw req rows = Inr bs"
    by (auto simp add: bind_err_def split: sum.splits)
  show ?case
  proof (cases "d = r")
    case True
    with b show ?thesis by (simp add: parse_bar_timestamp)
  next
    case False
    with Cons.prems(2) have "d \<in> set rows" by simp
    with Cons.IH [OF bs] show ?thesis .
  qed
qed

text \<open>A full page sends the loop on with the time of its last bar plus the interval.\<close>

lemma history_page_full:
  assumes "resp_status_code resp div 100 = 2"
    and "resp_json resp = Some (JArr rows)"
    and "750 \<le> length rows"
    and "parse_bars strptime gw req rows = Inr bars"
    and "TIMEDELTA_MAP (hr_interval req) = Some delta"
    and "datetime_add (bar_datetime (last bars)) delta = Inr t"
  shows "\<exists>b e. history_page strptime gw req resp history
           = Inr (history @ bars,
                  [WriteLog (LogHistorySuccess (hr_symbol req) (hr_interval req) b e)],
                  Some (DatetimeObject t))"
proof -
  from assms(3) have ne: "rows \<noteq> []" by auto
  then have "hd rows \<in> set rows" "last rows \<in> set rows" by simp_all
  with parse_bars_timestamp [OF assms(4)]
  obtain b e where "getitem (hd rows) ''timestamp'' = Inr b"
    "getitem (last rows) ''timestamp'' = Inr e" by blast
  with assms ne show ?thesis
    by (simp add: history_page_def bind_err_def)
qed

text \<open>A page with fewer than 750 rows ends the loop.\<close>

lemma history_page_last:
  assumes "resp_status_code resp div 100 = 2"
    and "resp_json resp = Some (JArr rows)"
    and "rows \<noteq> []" and "length rows < 750"
    and "parse_bars strptime gw req rows = Inr bars"
  shows "\<exists>b e. history_page strptime gw req resp history
           = Inr (history @ bars,
                  [WriteLog (LogHistorySuccess (hr_symbol req) (hr_interval req) b e)], None)"
proof -
  from assms(3) have "hd rows \<in> set rows" "last rows \<in> set rows" by simp_all
  with parse_bars_timestamp [OF assms(5)]
  obtain b e where "getitem (hd rows) ''timestamp'' = Inr b"
    "getitem (last rows) ''timestamp'' = Inr e" by blast
  with assms show ?thesis
    by (simp add: history_page_def bind_err_def)
qed

lemma history_loop_two_pages:
  assumes r1: "resp_status_code r1 div 100 = 2" "resp_json r1 = Some (JArr rows1)"
      "length rows1 = 750" "parse_bars strptime gw req rows1 = Inr bars1"
    and r2: "resp_status_code r2 div 100 = 2" "resp_json r2 = Some (JArr rows2)"
      "length rows2 = 10" "parse_bars strptime gw req rows2 = Inr bars2"
    and delta: "TIMEDELTA_MAP (hr_interval req) = Some delta"
    and t: "datetime_add (bar_datetime (last bars1)) delta = Inr t"
  shows "\<exists>evs. history_loop strptime gw req (r1 # r2 # rest) [] (IsoFormat (hr_start req))
           = (Inr (bars1 @ bars2), evs, rest)
         \<and> map p_startTime (page_requests evs) = [IsoFormat (hr_start req), DatetimeObject t]"
proof -
  from delta obtain bin where bin: "INTERVAL_VT2BITMEX (hr_interval req) = Some bin"
    by (cases "hr_interval req") (simp_all add: TIMEDELTA_MAP_def INTERVAL_VT2BITMEX_def)
  from r1 have "750 \<le> length rows1" by simp
  from history_page_full [OF r1(1,2) this r1(4) delta t, of "[]"]
  obtain b1 e1 where p1: "history_page strptime gw req r1 []
      = Inr (bars1, [WriteLog (LogHistorySuccess (hr_symbol req) (hr_interval req) b1 e1)],
             Some (DatetimeObject t))"
    by auto
  from r2 have "rows2 \<noteq> []" "length rows2 < 750" by auto
  from history_page_last [OF r2(1,2) this r2(4), of bars1]
  obtain b2 e2 where p2: "history_page strptime gw req r2 bars1
      = Inr (bars1 @ bars2,
             [WriteLog (LogHistorySuccess (hr_symbol req) (hr_interval req) b2 e2)], None)"
    by auto
  show ?thesis
    by (simp add: history_page_params_def bin p1 p2)
qed

subsection \<open>The mock endpoint\<close>

lemma mock_parse_bar: "parse_bar mock_strptime ''BITMEX'' mock_request mock_row = Inr mock_bar"
  by (simp add: parse_bar_def bind_err_def mock_row_def mock_strptime_def mock_request_def
      mock_bar_def)

lemma mock_parse_bars:
  "parse_bars mock_strptime ''BITMEX'' mock_request (replicate n mock_row)
     = Inr (replicate n mock_bar)"
  by (rule parse_bars_replicate [OF mock_parse_bar])

lemma mock_two_pages:
  assumes "rate_limit_sleep api = 0" and "rate_limit_remaining api \<noteq> 0"
    and "gateway_name api = ''BITMEX''"
  shows "\<exists>evs. query_history mock_strptime api mock_request
            (mock_page 750 # mock_page 10 # rest)
          = (Inr (Some (replicate 750 mock_bar @ replicate 10 mock_bar)),
             api\<lparr>rate_limit_remaining := rate_limit_remaining api - 1\<rparr>, evs, rest)
        \<and> length (page_requests evs) = 2"
proof -
  have c: "resp_status_code (mock_page 750) div 100 = 2"
    "resp_json (mock_page 750) = Some (JArr (replicate 750 mock_row))"
    "length (replicate 750 mock_row) = 750"
    "resp_status_code (mock_page 10) div 100 = 2"
    "resp_json (mock_page 10) = Some (JArr (replicate 10 mock_row))"
    "length (replicate 10 mock_row) = 10"
    by (simp_all add: mock_page_def)
  have d: "TIMEDELTA_MAP (hr_interval mock_request) = Some 60000000"
    by (simp add: TIMEDELTA_MAP_def mock_request_def)
  have e: "datetime_add (bar_datetime (last (replicate 750 mock_bar))) 60000000
      = Inr 63713433660000000"
    by (simp add: datetime_add_def datetime_max_def mock_bar_def)
  have p1: "parse_bars mock_strptime ''BITMEX'' mock_request
      (replicate 750 mock_row) = Inr (replicate 750 mock_bar)"
    and p2: "parse_bars mock_strptime ''BITMEX'' mock_request
      (replicate 10 mock_row) = Inr (replicate 10 mock_bar)"
    by (simp_all add: mock_parse_bars)
  from history_loop_two_pages [OF c(1,2,3) p1 c(4,5,6) p2 d e, of rest]
  obtain evs where l: "history_loop mock_strptime ''BITMEX'' mock_request
        (mock_page 750 # mock_page 10 # rest) [] (IsoFormat (hr_start mock_request))
      = (Inr (replicate 750 mock_bar @ replicate 10 mock_bar), evs, rest)"
    and m: "map p_startTime (page_requests evs)
        = [IsoFormat (hr_start mock_request), DatetimeObject 63713433660000000]"
    by (elim exE conjE)
  from m have "length (map p_startTime (page_requests evs)) = 2"
    by (simp only: list.size)
  then have n: "length (page_requests evs) = 2"
    by simp
  have q: "query_history mock_strptime api mock_request (mock_page 750 # mock_page 10 # rest)
      = (Inr (Some (replicate 750 mock_bar @ replicate 10 mock_bar)),
         api\<lparr>rate_limit_remaining := rate_limit_remaining api - 1\<rparr>, evs, rest)"
    using assms l
    by (simp add: query_history_def check_rate_limit_def del: history_loop.simps)
  show ?thesis
    by (rule exI [of _ evs]) (intro conjI q n)
qed

subsection \<open>The rate limit and the pages\<close>

text \<open>
  C4 as stated fails.  With one request remaining, the query for a page of 750 rows and a
  page of 10 rows sends two page requests; the quota goes from 1 to 0, and in the state
  the query leaves behind \<open>check_rate_limit\<close> denies, so the second page was requested
  without an acquisition of its own.
\<close>

theorem later_page_not_gated:
  "length (page_requests (fst (snd (snd
      (query_history mock_strptime ((BitmexRestApi ''BITMEX'')\<lparr>rate_limit_remaining := 1\<rparr>)
         mock_request [mock_page 750, mock_page 10]))))) = 2
   \<and> rate_limit_remaining (fst (snd
        (query_history mock_strptime ((BitmexRestApi ''BITMEX'')\<lparr>rate_limit_remaining := 1\<rparr>)
           mock_request [mock_page 750, mock_page 10]))) = 0
   \<and> \<not> fst (check_rate_limit (fst (snd
        (query_history mock_strptime ((BitmexRestApi ''BITMEX'')\<lparr>rate_limit_remaining := 1\<rparr>)
           mock_request [mock_page 750, mock_page 10]))))"
proof -
  have "rate_limit_sleep ((BitmexRestApi ''BITMEX'')\<lparr>rate_limit_remaining := 1\<rparr>) = 0"
    "rate_limit_remaining ((BitmexRestApi ''BITMEX'')\<lparr>rate_limit_remaining := 1\<rparr>) \<noteq> 0"
    "gateway_name ((BitmexRestApi ''BITMEX'')\<lparr>rate_limit_remaining := 1\<rparr>) = ''BITMEX''"
    by (simp_all add: BitmexRestApi_def)
  from mock_two_pages [OF this, of "[]"]
  obtain evs where q: "query_history mock_strptime
        ((BitmexRestApi ''BITMEX'')\<lparr>rate_limit_remaining := 1\<rparr>) mock_request
        [mock_page 750, mock_page 10]
      = (Inr (Some (replicate 750 mock_bar @ replicate 10 mock_bar)),
         (BitmexRestApi ''BITMEX'')\<lparr>rate_limit_remaining := 1\<rparr>
           \<lparr>rate_limit_remaining :=
              rate_limit_remaining ((BitmexRestApi ''BITMEX'')\<lparr>rate_limit_remaining := 1\<rparr>)
                - 1\<rparr>, evs, [])"
    and n: "length (page_requests evs) = 2"
    by (elim exE conjE)
  show ?thesis
    unfolding q using n by (simp add: check_rate_limit_def)
qed

text \<open>
  C4, amended.  \<open>query_history\<close> consults the rate limit once, before the first page.
  When the check denies, the query returns \<open>None\<close>, sends no page request and leaves the
  state and the endpoint as they were.  When it grants, the query takes one request from
  the remaining quota, whatever the number of pages it goes on to request.
\<close>

theorem query_history_gated_once:
  "(\<not> fst (check_rate_limit api) \<longrightarrow>
      query_history strptime api req endpoint
        = (Inr None, api, snd (snd (check_rate_limit api)), endpoint)
      \<and> page_requests (snd (snd (check_rate_limit api))) = [])
   \<and> (fst (check_rate_limit api) \<longrightarrow>
        fst (snd (query_history strptime api req endpoint))
          = api\<lparr>rate_limit_remaining := rate_limit_remaining api - 1\<rparr>)"
  by (simp add: query_history_def check_rate_limit_def split: prod.splits
      del: history_loop.simps)

theorem query_history_gated_once_witness:
  "\<not> fst (check_rate_limit ((BitmexRestApi ''BITMEX'')\<lparr>rate_limit_remaining := 0\<rparr>))
   \<and> query_history mock_strptime ((BitmexRestApi ''BITMEX'')\<lparr>rate_limit_remaining := 0\<rparr>)
        mock_request [mock_page 750, mock_page 10]
       = (Inr None, (BitmexRestApi ''BITMEX'')\<lparr>rate_limit_remaining := 0\<rparr>,
          [WriteLog LogLocalLimit], [mock_page 750, mock_page 10])
   \<and> fst (check_rate_limit (BitmexRestApi ''BITMEX''))
   \<and> fst (snd (query_history mock_strptime (BitmexRestApi ''BITMEX'') mock_request
                  [mock_page 750, mock_page 10]))
       = (BitmexRestApi ''BITMEX'')\<lparr>rate_limit_remaining := 59\<rparr>"
proof -
  have d: "\<not> fst (check_rate_limit ((BitmexRestApi ''BITMEX'')\<lparr>rate_limit_remaining := 0\<rparr>))"
    and e: "snd (snd (check_rate_limit ((BitmexRestApi ''BITMEX'')\<lparr>rate_limit_remaining := 0\<rparr>)))
        = [WriteLog LogLocalLimit]"
    and g: "fst (check_rate_limit (BitmexRestApi ''BITMEX''))"
    and r: "rate_limit_remaining (BitmexRestApi ''BITMEX'') - 1 = 59"
    by (simp_all add: check_rate_limit_def BitmexRestApi_def)
  from query_history_gated_once [of "(BitmexRestApi ''BITMEX'')\<lparr>rate_limit_remaining := 0\<rparr>"
      mock_strptime mock_request "[mock_page 750, mock_page 10]"] d e
  have a: "query_history mock_strptime ((BitmexRestApi ''BITMEX'')\<lparr>rate_limit_remaining := 0\<rparr>)
        mock_request [mock_page 750, mock_page 10]
       = (Inr None, (BitmexRestApi ''BITMEX'')\<lparr>rate_limit_remaining := 0\<rparr>,
          [WriteLog LogLocalLimit], [mock_page 750, mock_page 10])"
    by (simp del: history_loop.simps)
  from query_history_gated_once [of "BitmexRestApi ''BITMEX''"
      mock_strptime mock_request "[mock_page 750, mock_page 10]"] g r
  have b: "fst (snd (query_history mock_strptime (BitmexRestApi ''BITMEX'') mock_request
                  [mock_page 750, mock_page 10]))
       = (BitmexRestApi ''BITMEX'')\<lparr>rate_limit_remaining := 59\<rparr>"
    by (simp del: history_loop.simps)
  show ?thesis
    by (intro conjI d a g b)
qed

subsection \<open>750 rows, 10 rows, an empty body\<close>

text \<open>
  C5 as stated fails in one part: the query does not stop after the empty page.  It stops
  after the page of 10 rows, having sent two page requests; the empty page is never asked
  for.
\<close>

theorem empty_page_never_requested:
  "length (page_requests (fst (snd (snd
      (query_history mock_strptime (BitmexRestApi ''BITMEX'') mock_request
         [mock_page 750, mock_page 10, mock_page 0]))))) = 2
   \<and> snd (snd (snd
        (query_history mock_strptime (BitmexRestApi ''BITMEX'') mock_request
           [mock_page 750, mock_page 10, mock_page 0]))) = [mock_page 0]"
proof -
  have "rate_limit_sleep (BitmexRestApi ''BITMEX'') = 0"
    "rate_limit_remaining (BitmexRestApi ''BITMEX'') \<noteq> 0"
    "gateway_name (BitmexRestApi ''BITMEX'') = ''BITMEX''"
    by (simp_all add: BitmexRestApi_def)
  from mock_two_pages [OF this, of "[mock_page 0]"]
  obtain evs where q: "query_history mock_strptime (BitmexRestApi ''BITMEX'') mock_request
        [mock_page 750, mock_page 10, mock_page 0]
      = (Inr (Some (replicate 750 mock_bar @ replicate 10 mock_bar)),
         (BitmexRestApi ''BITMEX'')
           \<lparr>rate_limit_remaining := rate_limit_remaining (BitmexRestApi ''BITMEX'') - 1\<rparr>,
         evs, [mock_page 0])"
    and n: "length (page_requests evs) = 2"
    by (elim exE conjE)
  show ?thesis
    unfolding q using n by simp
qed

text \<open>
  C5, amended.  When the rate limit grants and the endpoint answers with a page of exactly
  750 rows and then a page of 10 rows, \<open>query_history\<close> returns the 760 bars of the two
  pages in order and stops after the page of 10 rows: what the endpoint would answer next
  (an empty body, say) is never requested.  The first page is requested from the start of
  the query, the second from the time of the last bar of the 750-row page plus one bar
  interval.
\<close>

theorem query_history_two_pages:
  assumes "rate_limit_sleep api = 0" and "rate_limit_remaining api \<noteq> 0"
    and "resp_status_code r1 div 100 = 2" and "resp_json r1 = Some (JArr rows1)"
    and "length rows1 = 750"
    and "parse_bars strptime (gateway_name api) req rows1 = Inr bars1"
    and "resp_status_code r2 div 100 = 2" and "resp_json r2 = Some (JArr rows2)"
    and "length rows2 = 10"
    and "parse_bars strptime (gateway_name api) req rows2 = Inr bars2"
    and "TIMEDELTA_MAP (hr_interval req) = Some delta"
    and "datetime_add (bar_datetime (last bars1)) delta = Inr t"
  shows "\<exists>evs. query_history strptime api req (r1 # r2 # rest)
           = (Inr (Some (bars1 @ bars2)),
              api\<lparr>rate_limit_remaining := rate_limit_remaining api - 1\<rparr>, evs, rest)
         \<and> length (bars1 @ bars2) = 760
         \<and> t = bar_datetime (last bars1) + delta
         \<and> map p_startTime (page_requests evs) = [IsoFormat (hr_start req), DatetimeObject t]"
proof -
  from history_loop_two_pages [OF assms(3-12), of rest]
  obtain evs where l: "history_loop strptime (gateway_name api) req (r1 # r2 # rest) []
        (IsoFormat (hr_start req)) = (Inr (bars1 @ bars2), evs, rest)"
    and p: "map p_startTime (page_requests evs) = [IsoFormat (hr_start req), DatetimeObject t]"
    by (elim exE conjE)
  have len: "length (bars1 @ bars2) = 760"
    using parse_bars_length [OF assms(6)] parse_bars_length [OF assms(10)] assms(5,9) by simp
  have tt: "t = bar_datetime (last bars1) + delta"
    using assms(12) by (simp add: datetime_add_def split: if_splits)
  have q: "query_history strptime api req (r1 # r2 # rest)
      = (Inr (Some (bars1 @ bars2)),
         api\<lparr>rate_limit_remaining := rate_limit_remaining api - 1\<rparr>, evs, rest)"
    using assms(1,2) l
    by (simp add: query_history_def check_rate_limit_def del: history_loop.simps)
  show ?thesis
    by (rule exI [of _ evs]) (intro conjI q len tt p)
qed

theorem query_history_two_pages_witness:
  "\<exists>evs. query_history mock_strptime (BitmexRestApi ''BITMEX'') mock_request
            [mock_page 750, mock_page 10, mock_page 0]
          = (Inr (Some (replicate 750 mock_bar @ replicate 10 mock_bar)),
             (BitmexRestApi ''BITMEX'')\<lparr>rate_limit_remaining := 59\<rparr>, evs, [mock_page 0])
        \<and> length (replicate 750 mock_bar @ replicate 10 mock_bar) = 760
        \<and> map p_startTime (page_requests evs)
            = [IsoFormat 63713433600000000, DatetimeObject 63713433660000000]"
proof -
  have a: "rate_limit_sleep (BitmexRestApi ''BITMEX'') = 0"
    and b: "rate_limit_remaining (BitmexRestApi ''BITMEX'') \<noteq> 0"
    and g: "gateway_name (BitmexRestApi ''BITMEX'') = ''BITMEX''"
    by (simp_all add: BitmexRestApi_def)
  have c: "resp_status_code (mock_page 750) div 100 = 2"
    "resp_json (mock_page 750) = Some (JArr (replicate 750 mock_row))"
    "length (replicate 750 mock_row) = 750"
    "resp_status_code (mock_page 10) div 100 = 2"
    "resp_json (mock_page 10) = Some (JArr (replicate 10 mock_row))"
    "length (replicate 10 mock_row) = 10"
    by (simp_all add: mock_page_def)
  have d: "TIMEDELTA_MAP (hr_interval mock_request) = Some 60000000"
    by (simp add: TIMEDELTA_MAP_def mock_request_def)
  have e: "datetime_add (bar_datetime (last (replicate 750 mock_bar))) 60000000
      = Inr 63713433660000000"
    by (simp add: datetime_add_def datetime_max_def mock_bar_def)
  have s: "hr_start mock_request = 63713433600000000"
    by (simp add: mock_request_def)
  have p1: "parse_bars mock_strptime (gateway_name (BitmexRestApi ''BITMEX'')) mock_request
      (replicate 750 mock_row) = Inr (replicate 750 mock_bar)"
    and p2: "parse_bars mock_strptime (gateway_name (BitmexRestApi ''BITMEX'')) mock_request
      (replicate 10 mock_row) = Inr (replicate 10 mock_bar)"
    by (simp_all add: g mock_parse_bars)
  from query_history_two_pages [OF a b c(1,2,3) p1 c(4,5,6) p2 d e, of "[mock_page 0]"]
  obtain evs where r: "query_history mock_strptime (BitmexRestApi ''BITMEX'') mock_request
        [mock_page 750, mock_page 10, mock_page 0]
      = (Inr (Some (replicate 750 mock_bar @ replicate 10 mock_bar)),
         (BitmexRestApi ''BITMEX'')
           \<lparr>rate_limit_remaining := rate_limit_remaining (BitmexRestApi ''BITMEX'') - 1\<rparr>,
         evs, [mock_page 0])"
    and l: "length (replicate 750 mock_bar @ replicate 10 mock_bar) = 760"
    and m: "map p_startTime (page_requests evs)
        = [IsoFormat (hr_start mock_request), DatetimeObject 63713433660000000]"
    by (elim exE conjE)
  have n: "rate_limit_remaining (BitmexRestApi ''BITMEX'') - 1 = 59"
    by (simp add: BitmexRestApi_def)
  from r have r': "query_history mock_strptime (BitmexRestApi ''BITMEX'') mock_request
        [mock_page 750, mock_page 10, mock_page 0]
      = (Inr (Some (replicate 750 mock_bar @ replicate 10 mock_bar)),
         (BitmexRestApi ''BITMEX'')\<lparr>rate_limit_remaining := 59\<rparr>, evs, [mock_page 0])"
    by (simp only: n)
  from m have m': "map p_startTime (page_requests evs)
        = [IsoFormat 63713433600000000, DatetimeObject 63713433660000000]"
    by (simp only: s)
  show ?thesis
    by (rule exI [of _ evs]) (intro conjI r' l m')
qed

section \<open>Signatures\<close>

text \<open>
  The REST signature: the expiry is the time plus 30 seconds, and the signed text is
  method, \<open>/api/v1\<close>, path with query, expiry and encoded body.
\<close>

lemma sign_with_skew:
  assumes "rq_params rq = Some ps" and "ps \<noteq> []" and "rq_data rq = DataDict d" and "d \<noteq> []"
  shows "sign urlencode hmac_sha256_hex now api rq =
     Inr (rq\<lparr>rq_data := DataStr (urlencode d),
             rq_headers :=
               [(''Content-Type'', ''application/x-www-form-urlencoded''),
                (''Accept'', ''application/json''),
                (''api-key'', key api),
                (''api-expires'', str_int (py_int (now + 30))),
                (''api-signature'',
                 hmac_sha256_hex (secret api)
                   (rq_method rq @ ''/api/v1'' @ (rq_path rq @ ''?'' @ urlencode ps)
                    @ str_int (py_int (now + 30)) @ urlencode d))]\<rparr>)"
  using assms by (simp add: sign_def bind_err_def Let_def)

text \<open>
  C6.  The claim: the REST and the streaming signature both carry an expiry of the current
  time plus 30 seconds; the streaming signature is over \<open>GET\<close>, \<open>/realtime\<close> and the
  expiry.  \<open>sign\<close> does so (\<open>sign_with_skew\<close>).  \<open>authenticate\<close> signs the right text
  but takes the current time itself as expiry: at time 1000 it sends the expiry 1000 and
  signs \<open>GET/realtime1000\<close>, where the claim has 1030.
\<close>

theorem authenticate_expires_without_skew:
  "authenticate hmac_sha256_hex 1000 ws
     = [SendPacket (AuthKey (ws_key ws) 1000
                      (hmac_sha256_hex (ws_secret ws) ''GET/realtime1000''))]"
  by (simp add: authenticate_def py_int_def str_int_def str_nat.simps digit_char_def)

section \<open>Executions: filter and deduplication\<close>

lemma build_trade_tradeid: "build_trade gw d v = Inr t \<Longrightarrow> t_tradeid t = v"
  by (auto simp add: build_trade_def bind_err_def split: sum.splits if_splits)

lemma build_trade_lastQty: "build_trade gw d v = Inr t \<Longrightarrow> \<exists>q. getitem d ''lastQty'' = Inr q"
  by (auto simp add: build_trade_def bind_err_def split: sum.splits if_splits)

text \<open>A record without quantity or side changes nothing and emits nothing.\<close>

lemma on_trade_dropped:
  "no_fill_quantity d \<or> absent_side d \<Longrightarrow>
   snd (snd (on_trade ws d)) = [] \<and> fst (snd (on_trade ws d)) = ws"
  by (auto simp add: no_fill_quantity_def absent_side_def on_trade_def split: sum.splits)

text \<open>A fill is emitted and remembered unless its id is already in the set.\<close>

lemma on_trade_fill:
  assumes "is_fill (ws_gateway_name ws) d"
  shows "\<exists>k t. exec_key d = Some k \<and> fill_trade (ws_gateway_name ws) d = Some t
    \<and> trade_key t = k
    \<and> on_trade ws d =
        (if k \<in> ws_trades ws then (None, ws, [])
         else (None, ws\<lparr>ws_trades := insert k (ws_trades ws)\<rparr>, [OnTrade t]))"
  using assms
  by (auto simp add: is_fill_def no_fill_quantity_def absent_side_def exec_key_def
      fill_trade_def on_trade_def trade_key_def Let_def
      dest: build_trade_tradeid build_trade_lastQty split: sum.splits if_splits)

text \<open>Any record: at most one trade, and only under an id that was not in the set.\<close>

lemma on_trade_general:
  "\<exists>r ws' evs. on_trade ws d = (r, ws', evs)
     \<and> ws_trades ws \<subseteq> ws_trades ws'
     \<and> ws_gateway_name ws' = ws_gateway_name ws
     \<and> ws_active ws' = ws_active ws
     \<and> ws_orders ws' = ws_orders ws
     \<and> (evs = [] \<or> (\<exists>t. evs = [OnTrade t] \<and> trade_key t \<notin> ws_trades ws
                          \<and> trade_key t \<in> ws_trades ws'))"
  by (auto simp add: on_trade_def trade_key_def Let_def
      dest: build_trade_tradeid split: sum.splits if_splits)

lemma emitted_trades_append:
  "emitted_trades (xs @ ys) = emitted_trades xs @ emitted_trades ys"
  by (induction xs rule: emitted_trades.induct) simp_all

lemma on_trade_filtered_out: "filtered_out d \<Longrightarrow> on_trade ws d = (None, ws, [])"
  by (auto simp add: filtered_out_def on_trade_def split: sum.splits)

text \<open>
  The loop of \<open>on_packet\<close> over the records of a packet, with \<open>on_trade\<close> as the handler:
  a step that returns, and what the whole loop keeps.
\<close>

lemma run_callback_step:
  "on_trade ws d = (None, ws', evs) \<Longrightarrow>
   run_callback on_trade ws (d # ds)
     = (fst (run_callback on_trade ws' ds), fst (snd (run_callback on_trade ws' ds)),
        evs @ snd (snd (run_callback on_trade ws' ds)))"
  by (simp split: prod.splits)

lemma run_on_trade_distinct:
  "distinct (map trade_key (emitted_trades (snd (snd (run_callback on_trade ws ds)))))
   \<and> set (map trade_key (emitted_trades (snd (snd (run_callback on_trade ws ds)))))
       \<inter> ws_trades ws = {}
   \<and> set (map trade_key (emitted_trades (snd (snd (run_callback on_trade ws ds)))))
       \<subseteq> ws_trades (fst (snd (run_callback on_trade ws ds)))
   \<and> ws_trades ws \<subseteq> ws_trades (fst (snd (run_callback on_trade ws ds)))"
proof (induction ds arbitrary: ws)
  case Nil
  show ?case by simp
next
  case (Cons d ds)
  from on_trade_general [of ws d]
  obtain r ws' evs where step: "on_trade ws d = (r, ws', evs)"
    and sub: "ws_trades ws \<subseteq> ws_trades ws'"
    and evs: "evs = [] \<or> (\<exists>t. evs = [OnTrade t] \<and> trade_key t \<notin> ws_trades ws
                \<and> trade_key t \<in> ws_trades ws')"
    by blast
  have own: "distinct (map trade_key (emitted_trades evs))
      \<and> set (map trade_key (emitted_trades evs)) \<inter> ws_trades ws = {}
      \<and> set (map trade_key (emitted_trades evs)) \<subseteq> ws_trades ws'"
    using evs by auto
  show ?case
  proof (cases r)
    case (Some e)
    with step have "run_callback on_trade ws (d # ds) = (Some e, ws', evs)" by simp
    with own sub show ?thesis by (simp del: run_callback.simps)
  next
    case None
    let ?run = "run_callback on_trade ws' ds"
    let ?rest = "map trade_key (emitted_trades (snd (snd ?run)))"
    from Cons.IH [of ws'] have d: "distinct ?rest" and i: "set ?rest \<inter> ws_trades ws' = {}"
      and f: "set ?rest \<subseteq> ws_trades (fst (snd ?run))"
      and g: "ws_trades ws' \<subseteq> ws_trades (fst (snd ?run))"
      by simp_all
    from None step have e: "run_callback on_trade ws (d # ds)
        = (fst ?run, fst (snd ?run), evs @ snd (snd ?run))"
      by (simp add: run_callback_step del: run_callback.simps)
    have "distinct (map trade_key (emitted_trades evs) @ ?rest)"
      using own d i by auto
    moreover have "set (map trade_key (emitted_trades evs) @ ?rest) \<inter> ws_trades ws = {}"
      using own i sub by auto
    moreover have "set (map trade_key (emitted_trades evs) @ ?rest)
        \<subseteq> ws_trades (fst (snd ?run))"
      using own f g by auto
    moreover have "ws_trades ws \<subseteq> ws_trades (fst (snd ?run))"
      using sub g by auto
    ultimately show ?thesis
      unfolding e by (simp add: emitted_trades_append del: run_callback.simps)
  qed
qed

lemma run_on_trade_first_wins:
  assumes "\<forall>d\<in>set ds. filtered_out d \<or> is_fill (ws_gateway_name ws) d"
  shows "fst (run_callback on_trade ws ds) = None
     \<and> filter (\<lambda>t. trade_key t = k)
         (emitted_trades (snd (snd (run_callback on_trade ws ds))))
       = (if k \<in> ws_trades ws then []
          else case find (\<lambda>d. is_fill (ws_gateway_name ws) d \<and> exec_key d = Some k) ds of
                 None \<Rightarrow> []
               | Some d \<Rightarrow> (case fill_trade (ws_gateway_name ws) d of
                              None \<Rightarrow> [] | Some t \<Rightarrow> [t]))"
  using assms
proof (induction ds arbitrary: ws)
  case Nil
  show ?case by simp
next
  case (Cons d ds)
  let ?gw = "ws_gateway_name ws"
  from Cons.prems have rest: "\<forall>d\<in>set ds. filtered_out d \<or> is_fill ?gw d"
    and hd: "filtered_out d \<or> is_fill ?gw d"
    by simp_all
  show ?case
  proof (cases "is_fill ?gw d")
    case False
    with hd have "filtered_out d" by blast
    then have "on_trade ws d = (None, ws, [])" by (rule on_trade_filtered_out)
    from run_callback_step [OF this, of ds]
    have "run_callback on_trade ws (d # ds)
        = (fst (run_callback on_trade ws ds), fst (snd (run_callback on_trade ws ds)),
           snd (snd (run_callback on_trade ws ds)))" by simp
    with Cons.IH [OF rest] False show ?thesis by (simp del: run_callback.simps)
  next
    case True
    from on_trade_fill [OF True]
    obtain k' t where k': "exec_key d = Some k'" and t: "fill_trade ?gw d = Some t"
      and tk: "trade_key t = k'"
      and step: "on_trade ws d =
        (if k' \<in> ws_trades ws then (None, ws, [])
         else (None, ws\<lparr>ws_trades := insert k' (ws_trades ws)\<rparr>, [OnTrade t]))"
      by blast
    show ?thesis
    proof (cases "k' \<in> ws_trades ws")
      case seen: True
      with step have "on_trade ws d = (None, ws, [])" by simp
      from run_callback_step [OF this, of ds]
      have "run_callback on_trade ws (d # ds)
          = (fst (run_callback on_trade ws ds), fst (snd (run_callback on_trade ws ds)),
             snd (snd (run_callback on_trade ws ds)))" by simp
      with Cons.IH [OF rest] seen k' True show ?thesis
        by (auto simp del: run_callback.simps)
    next
      case new: False
      let ?ws' = "ws\<lparr>ws_trades := insert k' (ws_trades ws)\<rparr>"
      from new step have "on_trade ws d = (None, ?ws', [OnTrade t])" by simp
      note e = run_callback_step [OF this, of ds]
      have rest': "\<forall>d\<in>set ds. filtered_out d \<or> is_fill (ws_gateway_name ?ws') d"
        using rest by simp
      have g: "ws_gateway_name ?ws' = ws_gateway_name ws" by simp
      have s: "ws_trades ?ws' = insert k' (ws_trades ws)" by simp
      note ih = Cons.IH [OF rest', unfolded g s]
      from ih new k' t tk True show ?thesis
        unfolding e by (auto simp add: emitted_trades_append simp del: run_callback.simps)
    qed
  qed
qed

lemma sample_fill_facts:
  "is_fill ''BITMEX'' sample_fill" "is_fill ''BITMEX'' sample_fill_again"
  "no_fill_quantity sample_funding"
  "exec_key sample_fill = Some (JStr ''e1'')"
  "fill_trade ''BITMEX'' sample_fill = Some sample_trade"
  by (simp_all add: is_fill_def no_fill_quantity_def absent_side_def exec_key_def
      fill_trade_def build_trade_def bind_err_def index_json_def lookup_json_def
      DIRECTION_BITMEX2VT_def sample_fill_def sample_fill_again_def sample_funding_def
      sample_trade_def)

lemma sample_filtered_out: "filtered_out sample_funding"
  by (simp add: filtered_out_def sample_funding_def)

text \<open>
  C7 as stated fails in its second part.  The handler puts the trade id into the set
  before it reads the fields of the trade.  A fill under the id \<open>e2\<close> that lacks
  \<open>clOrdID\<close> raises after its id is in the set, and the complete fill under \<open>e2\<close> that
  is delivered next is dropped as a repeat: the id is delivered twice and no trade is
  emitted, in two packets as in one.
\<close>

theorem incomplete_fill_blocks_trade_id:
  "exec_key incomplete_fill = Some (JStr ''e2'')
   \<and> exec_key complete_fill = Some (JStr ''e2'')
   \<and> is_fill ''BITMEX'' complete_fill
   \<and> on_trade sample_ws incomplete_fill
       = (Some KeyError, sample_ws\<lparr>ws_trades := {JStr ''e2''}\<rparr>, [])
   \<and> on_trade (sample_ws\<lparr>ws_trades := {JStr ''e2''}\<rparr>) complete_fill
       = (None, sample_ws\<lparr>ws_trades := {JStr ''e2''}\<rparr>, [])
   \<and> run_callback on_trade sample_ws [incomplete_fill, complete_fill]
       = (Some KeyError, sample_ws\<lparr>ws_trades := {JStr ''e2''}\<rparr>, [])"
  by (simp add: exec_key_def is_fill_def no_fill_quantity_def absent_side_def fill_trade_def
      build_trade_def bind_err_def index_json_def lookup_json_def DIRECTION_BITMEX2VT_def
      on_trade_def Let_def incomplete_fill_def complete_fill_def sample_ws_def)

text \<open>
  C7, amended.  An execution record with zero fill quantity or an absent side leaves the
  session as it was (the set of trade ids included) and emits nothing.  For every list of
  execution records and every state of the set, no two trades emitted by the loop have the
  same trade id, none has an id that was in the set before, and all their ids are in the
  set afterwards; so a trade id is emitted at most once, within a packet and across
  packets.  When every record of the list is filtered out or is a fill that carries all
  the fields of the trade, the loop returns and a trade id that is not yet in the set and
  is delivered by some fill is emitted exactly once, as the trade of the first fill that
  carries it.
\<close>

theorem on_trade_filters_and_dedups:
  "(no_fill_quantity d \<or> absent_side d \<longrightarrow>
      snd (snd (on_trade ws d)) = [] \<and> fst (snd (on_trade ws d)) = ws)
   \<and> distinct (map trade_key (emitted_trades (snd (snd (run_callback on_trade ws ds)))))
   \<and> set (map trade_key (emitted_trades (snd (snd (run_callback on_trade ws ds)))))
       \<inter> ws_trades ws = {}
   \<and> set (map trade_key (emitted_trades (snd (snd (run_callback on_trade ws ds)))))
       \<subseteq> ws_trades (fst (snd (run_callback on_trade ws ds)))
   \<and> ((\<forall>x\<in>set ds. filtered_out x \<or> is_fill (ws_gateway_name ws) x)
        \<and> find (\<lambda>x. is_fill (ws_gateway_name ws) x \<and> exec_key x = Some k) ds = Some d1
        \<and> k \<notin> ws_trades ws
      \<longrightarrow> (\<exists>t. fill_trade (ws_gateway_name ws) d1 = Some t
             \<and> fst (run_callback on_trade ws ds) = None
             \<and> filter (\<lambda>t. trade_key t = k)
                 (emitted_trades (snd (snd (run_callback on_trade ws ds)))) = [t]))"
proof (intro conjI impI)
  assume "no_fill_quantity d \<or> absent_side d"
  from on_trade_dropped [OF this, of ws]
  show "snd (snd (on_trade ws d)) = []" and "fst (snd (on_trade ws d)) = ws" by simp_all
next
  show "distinct (map trade_key (emitted_trades (snd (snd (run_callback on_trade ws ds)))))"
    using run_on_trade_distinct [of ws ds] by simp
next
  show "set (map trade_key (emitted_trades (snd (snd (run_callback on_trade ws ds)))))
       \<inter> ws_trades ws = {}"
    using run_on_trade_distinct [of ws ds] by simp
next
  show "set (map trade_key (emitted_trades (snd (snd (run_callback on_trade ws ds)))))
       \<subseteq> ws_trades (fst (snd (run_callback on_trade ws ds)))"
    using run_on_trade_distinct [of ws ds] by simp
next
  assume a: "(\<forall>x\<in>set ds. filtered_out x \<or> is_fill (ws_gateway_name ws) x)
        \<and> find (\<lambda>x. is_fill (ws_gateway_name ws) x \<and> exec_key x = Some k) ds = Some d1
        \<and> k \<notin> ws_trades ws"
  then have f: "find (\<lambda>x. is_fill (ws_gateway_name ws) x \<and> exec_key x = Some k) ds = Some d1"
    and n: "k \<notin> ws_trades ws" by simp_all
  from f have "is_fill (ws_gateway_name ws) d1"
    by (auto simp add: find_Some_iff)
  then obtain t where t: "fill_trade (ws_gateway_name ws) d1 = Some t"
    by (auto simp add: is_fill_def)
  from a have "\<forall>x\<in>set ds. filtered_out x \<or> is_fill (ws_gateway_name ws) x"
    by simp
  from run_on_trade_first_wins [OF this, of k] f n t
  show "\<exists>t. fill_trade (ws_gateway_name ws) d1 = Some t
      \<and> fst (run_callback on_trade ws ds) = None
      \<and> filter (\<lambda>t. trade_key t = k)
          (emitted_trades (snd (snd (run_callback on_trade ws ds)))) = [t]"
    by (simp del: run_callback.simps)
qed

theorem on_trade_filters_and_dedups_witness:
  "no_fill_quantity sample_funding
   \<and> snd (snd (on_trade sample_ws sample_funding)) = []
   \<and> fst (snd (on_trade sample_ws sample_funding)) = sample_ws
   \<and> distinct (map trade_key (emitted_trades (snd (snd
        (run_callback on_trade sample_ws [sample_funding, sample_fill, sample_fill_again])))))
   \<and> fst (run_callback on_trade sample_ws [sample_funding, sample_fill, sample_fill_again])
       = None
   \<and> filter (\<lambda>t. trade_key t = JStr ''e1'') (emitted_trades (snd (snd
        (run_callback on_trade sample_ws [sample_funding, sample_fill, sample_fill_again]))))
       = [sample_trade]"
proof -
  have g: "ws_gateway_name sample_ws = ''BITMEX''" and e: "JStr ''e1'' \<notin> ws_trades sample_ws"
    by (simp_all add: sample_ws_def)
  have all: "\<forall>x\<in>set [sample_funding, sample_fill, sample_fill_again].
      filtered_out x \<or> is_fill (ws_gateway_name sample_ws) x"
    by (simp add: g sample_fill_facts sample_filtered_out)
  have nf: "\<not> is_fill ''BITMEX'' sample_funding"
    using sample_fill_facts(3) by (simp add: is_fill_def)
  have f: "find (\<lambda>x. is_fill (ws_gateway_name sample_ws) x \<and> exec_key x = Some (JStr ''e1''))
      [sample_funding, sample_fill, sample_fill_again] = Some sample_fill"
    by (simp add: g nf sample_fill_facts)
  from on_trade_filters_and_dedups [of sample_funding sample_ws
      "[sample_funding, sample_fill, sample_fill_again]" "JStr ''e1''" sample_fill]
    all f e sample_fill_facts(3,5) g
  show ?thesis by (auto simp del: run_callback.simps)
qed

section \<open>Orders: status and frame\<close>

lemma on_order_without_status:
  "map_of kvs ''ordStatus'' = None \<Longrightarrow> on_order ws (JObj kvs) = (None, ws, [])"
  by (simp add: on_order_def map_of_eq_None_iff)

lemma update_order_unmapped:
  assumes "map_of kvs ''ordStatus'' = Some st" and "lookup_json STATUS_BITMEX2VT st = Inr None"
  shows "update_order ws (JObj kvs) sysid order =
     (None,
      ws\<lparr>ws_orders := (ws_orders ws)(py_key sysid \<mapsto>
            order\<lparr>o_traded := (case map_of kvs ''cumQty'' of
                                  None \<Rightarrow> o_traded order | Some c \<Rightarrow> c)\<rparr>)\<rparr>,
      [OnOrder (order\<lparr>o_traded := (case map_of kvs ''cumQty'' of
                                      None \<Rightarrow> o_traded order | Some c \<Rightarrow> c)\<rparr>)])"
  using assms by (simp add: update_order_def bind_err_def Let_def split: option.splits)

text \<open>
  C8.  An order record without the field \<open>ordStatus\<close> leaves the session as it was and
  emits nothing.  For a record whose \<open>ordStatus\<close> finds nothing in \<open>STATUS_BITMEX2VT\<close>,
  the order (the cached one, or the one made at the first sighting) keeps its status,
  takes \<open>cumQty\<close> as traded when the record has it, is stored under the venue id, and its
  copy is emitted.
\<close>

theorem on_order_status_rules:
  "(map_of kvs ''ordStatus'' = None \<longrightarrow> on_order ws (JObj kvs) = (None, ws, []))
   \<and> (map_of kvs ''ordStatus'' = Some st \<and> lookup_json STATUS_BITMEX2VT st = Inr None
       \<and> map_of kvs ''orderID'' = Some sysid \<and> py_hashable sysid
       \<and> (ws_orders ws (py_key sysid) = Some order
           \<or> ws_orders ws (py_key sysid) = None
             \<and> build_order (ws_gateway_name ws) (JObj kvs) sysid = Inr order)
      \<longrightarrow> (\<exists>order'. order' = order\<lparr>o_traded := (case map_of kvs ''cumQty'' of
                                  None \<Rightarrow> o_traded order | Some c \<Rightarrow> c)\<rparr>
             \<and> o_status order' = o_status order
             \<and> on_order ws (JObj kvs) =
                 (None, ws\<lparr>ws_orders := (ws_orders ws)(py_key sysid \<mapsto> order')\<rparr>,
                  [OnOrder order'])))"
proof (intro conjI impI)
  assume "map_of kvs ''ordStatus'' = None"
  then show "on_order ws (JObj kvs) = (None, ws, [])" by (rule on_order_without_status)
next
  assume a: "map_of kvs ''ordStatus'' = Some st \<and> lookup_json STATUS_BITMEX2VT st = Inr None
       \<and> map_of kvs ''orderID'' = Some sysid \<and> py_hashable sysid
       \<and> (ws_orders ws (py_key sysid) = Some order
           \<or> ws_orders ws (py_key sysid) = None
             \<and> build_order (ws_gateway_name ws) (JObj kvs) sysid = Inr order)"
  then have st: "map_of kvs ''ordStatus'' = Some st" "lookup_json STATUS_BITMEX2VT st = Inr None"
    and id: "map_of kvs ''orderID'' = Some sysid" "py_hashable sysid"
    and ord: "ws_orders ws (py_key sysid) = Some order
           \<or> ws_orders ws (py_key sysid) = None
             \<and> build_order (ws_gateway_name ws) (JObj kvs) sysid = Inr order"
    by simp_all
  from st(1) have has: "''ordStatus'' \<in> fst ` set kvs"
    by (metis map_of_eq_None_iff option.distinct(1))
  from has id ord
  have "on_order ws (JObj kvs) = update_order ws (JObj kvs) sysid order
      \<or> on_order ws (JObj kvs)
          = update_order (ws\<lparr>ws_orders := (ws_orders ws)(py_key sysid \<mapsto> order)\<rparr>)
              (JObj kvs) sysid order"
    by (auto simp add: on_order_def)
  with update_order_unmapped [OF st, of ws sysid order]
    update_order_unmapped [OF st,
      of "ws\<lparr>ws_orders := (ws_orders ws)(py_key sysid \<mapsto> order)\<rparr>" sysid order]
  show "\<exists>order'. order' = order\<lparr>o_traded := (case map_of kvs ''cumQty'' of
                                  None \<Rightarrow> o_traded order | Some c \<Rightarrow> c)\<rparr>
             \<and> o_status order' = o_status order
             \<and> on_order ws (JObj kvs) =
                 (None, ws\<lparr>ws_orders := (ws_orders ws)(py_key sysid \<mapsto> order')\<rparr>,
                  [OnOrder order'])"
    by simp
qed

theorem on_order_status_rules_witness:
  "on_order ws_with_order order_update_no_status = (None, ws_with_order, [])
   \<and> o_status (cached_order\<lparr>o_traded := JNum 4\<rparr>) = NOTTRADED
   \<and> on_order ws_with_order order_update =
       (None,
        ws_with_order\<lparr>ws_orders := (ws_orders ws_with_order)
                        (JStr ''o1'' \<mapsto> cached_order\<lparr>o_traded := JNum 4\<rparr>)\<rparr>,
        [OnOrder (cached_order\<lparr>o_traded := JNum 4\<rparr>)])"
proof -
  have a: "map_of [(''orderID'', JStr ''o1''), (''cumQty'', JNum 4)] ''ordStatus'' = None"
    by simp
  have b: "map_of [(''orderID'', JStr ''o1''), (''ordStatus'', JStr ''PartiallyFilled''),
                   (''cumQty'', JNum 4)] ''ordStatus'' = Some (JStr ''PartiallyFilled'')
       \<and> lookup_json STATUS_BITMEX2VT (JStr ''PartiallyFilled'') = Inr None
       \<and> map_of [(''orderID'', JStr ''o1''), (''ordStatus'', JStr ''PartiallyFilled''),
                   (''cumQty'', JNum 4)] ''orderID'' = Some (JStr ''o1'')
       \<and> py_hashable (JStr ''o1'')
       \<and> (ws_orders ws_with_order (py_key (JStr ''o1'')) = Some cached_order
           \<or> ws_orders ws_with_order (py_key (JStr ''o1'')) = None
             \<and> build_order (ws_gateway_name ws_with_order)
                 (JObj [(''orderID'', JStr ''o1''), (''ordStatus'', JStr ''PartiallyFilled''),
                        (''cumQty'', JNum 4)]) (JStr ''o1'') = Inr cached_order)"
    by (simp add: lookup_json_def STATUS_BITMEX2VT_def ws_with_order_def)
  have c: "map_of [(''orderID'', JStr ''o1''), (''ordStatus'', JStr ''PartiallyFilled''),
                   (''cumQty'', JNum 4)] ''cumQty'' = Some (JNum 4)"
    by simp
  have s: "o_status cached_order = NOTTRADED"
    by (simp add: cached_order_def)
  from on_order_status_rules [where kvs = "[(''orderID'', JStr ''o1''), (''cumQty'', JNum 4)]"
      and ws = ws_with_order] a
  have 1: "on_order ws_with_order order_update_no_status = (None, ws_with_order, [])"
    by (simp add: order_update_no_status_def)
  note r = on_order_status_rules [where kvs = "[(''orderID'', JStr ''o1''),
      (''ordStatus'', JStr ''PartiallyFilled''), (''cumQty'', JNum 4)]"
      and st = "JStr ''PartiallyFilled''" and sysid = "JStr ''o1''" and ws = ws_with_order
      and order = cached_order, THEN conjunct2, THEN mp, OF b]
  from r c
  have 2: "on_order ws_with_order order_update =
       (None,
        ws_with_order\<lparr>ws_orders := (ws_orders ws_with_order)
                        (JStr ''o1'' \<mapsto> cached_order\<lparr>o_traded := JNum 4\<rparr>)\<rparr>,
        [OnOrder (cached_order\<lparr>o_traded := JNum 4\<rparr>)])"
    by (simp add: order_update_def)
  from 1 2 s show ?thesis by simp
qed

lemma update_order_frame:
  assumes "update_order ws d sysid order = (r, ws', evs)"
    and "ws_orders ws (py_key sysid) = Some order"
  shows "\<exists>order'. ws_orders ws' (py_key sysid) = Some order'
      \<and> order'\<lparr>o_traded := o_traded order, o_status := o_status order\<rparr> = order
      \<and> (\<forall>k. k \<noteq> py_key sysid \<longrightarrow> ws_orders ws' k = ws_orders ws k)"
  using assms
  by (auto simp add: update_order_def Let_def split: sum.splits)

text \<open>
  C10.  For an order record whose venue id is in the cache, whatever the handler does
  (return or raise), the order cached under that id afterwards agrees with the one before
  in symbol, exchange, type, order id, direction, price and volume (and in offset, time
  and gateway name); the other entries of the cache are untouched.
\<close>

theorem on_order_frame:
  assumes "ws_orders ws (py_key sysid) = Some order"
    and "getitem d ''orderID'' = Inr sysid" and "py_hashable sysid"
  shows "\<exists>order'. ws_orders (fst (snd (on_order ws d))) (py_key sysid) = Some order'
      \<and> o_symbol order' = o_symbol order \<and> o_exchange order' = o_exchange order
      \<and> o_type order' = o_type order \<and> o_orderid order' = o_orderid order
      \<and> o_direction order' = o_direction order \<and> o_price order' = o_price order
      \<and> o_volume order' = o_volume order \<and> o_offset order' = o_offset order
      \<and> o_time order' = o_time order \<and> o_gateway_name order' = o_gateway_name order
      \<and> (\<forall>k. k \<noteq> py_key sysid \<longrightarrow>
            ws_orders (fst (snd (on_order ws d))) k = ws_orders ws k)"
proof -
  have "fst (snd (on_order ws d)) = ws
      \<or> on_order ws d = update_order ws d sysid order"
    using assms by (auto simp add: on_order_def split: sum.splits)
  then show ?thesis
  proof
    assume "fst (snd (on_order ws d)) = ws"
    with assms(1) show ?thesis by simp
  next
    assume u: "on_order ws d = update_order ws d sysid order"
    obtain r ws' evs where s: "update_order ws d sysid order = (r, ws', evs)"
      by (cases "update_order ws d sysid order") auto
    from update_order_frame [OF s assms(1)]
    obtain order' where o: "ws_orders ws' (py_key sysid) = Some order'"
      and f: "order'\<lparr>o_traded := o_traded order, o_status := o_status order\<rparr> = order"
      and k: "\<forall>k. k \<noteq> py_key sysid \<longrightarrow> ws_orders ws' k = ws_orders ws k"
      by blast
    from f have "o_symbol order' = o_symbol order \<and> o_exchange order' = o_exchange order
      \<and> o_type order' = o_type order \<and> o_orderid order' = o_orderid order
      \<and> o_direction order' = o_direction order \<and> o_price order' = o_price order
      \<and> o_volume order' = o_volume order \<and> o_offset order' = o_offset order
      \<and> o_time order' = o_time order \<and> o_gateway_name order' = o_gateway_name order"
      by (cases order, cases order') simp
    with o k u s show ?thesis by simp
  qed
qed

theorem on_order_frame_witness:
  "ws_orders ws_with_order (py_key (JStr ''o1'')) = Some cached_order
   \<and> getitem order_filled ''orderID'' = Inr (JStr ''o1'')
   \<and> py_hashable (JStr ''o1'')
   \<and> (\<exists>order'. ws_orders (fst (snd (on_order ws_with_order order_filled)))
                    (py_key (JStr ''o1'')) = Some order'
      \<and> o_symbol order' = o_symbol cached_order \<and> o_exchange order' = o_exchange cached_order
      \<and> o_type order' = o_type cached_order \<and> o_orderid order' = o_orderid cached_order
      \<and> o_direction order' = o_direction cached_order \<and> o_price order' = o_price cached_order
      \<and> o_volume order' = o_volume cached_order \<and> o_offset order' = o_offset cached_order
      \<and> o_time order' = o_time cached_order
      \<and> o_gateway_name order' = o_gateway_name cached_order
      \<and> ws_orders (fst (snd (on_order ws_with_order order_filled))) (JStr ''o2'')
          = ws_orders ws_with_order (JStr ''o2''))"
proof -
  have h1: "ws_orders ws_with_order (py_key (JStr ''o1'')) = Some cached_order"
    by (simp add: ws_with_order_def)
  have h2: "getitem order_filled ''orderID'' = Inr (JStr ''o1'')"
    by (simp add: order_filled_def)
  have h3: "py_hashable (JStr ''o1'')"
    by simp
  have h4: "JStr ''o2'' \<noteq> py_key (JStr ''o1'')"
    by simp
  from on_order_frame [OF h1 h2 h3] h4
  have "\<exists>order'. ws_orders (fst (snd (on_order ws_with_order order_filled)))
                    (py_key (JStr ''o1'')) = Some order'
      \<and> o_symbol order' = o_symbol cached_order \<and> o_exchange order' = o_exchange cached_order
      \<and> o_type order' = o_type cached_order \<and> o_orderid order' = o_orderid cached_order
      \<and> o_direction order' = o_direction cached_order \<and> o_price order' = o_price cached_order
      \<and> o_volume order' = o_volume cached_order \<and> o_offset order' = o_offset cached_order
      \<and> o_time order' = o_time cached_order
      \<and> o_gateway_name order' = o_gateway_name cached_order
      \<and> ws_orders (fst (snd (on_order ws_with_order order_filled))) (JStr ''o2'')
          = ws_orders ws_with_order (JStr ''o2'')"
    by blast
  with h1 h2 h3 show ?thesis
    by (intro conjI)
qed

section \<open>Error notices and the end of the session\<close>

lemma on_trade_active: "ws_active (fst (snd (on_trade ws d))) = ws_active ws"
  by (auto simp add: on_trade_def Let_def split: sum.splits)

lemma update_order_active: "ws_active (fst (snd (update_order ws d sysid order))) = ws_active ws"
  by (auto simp add: update_order_def Let_def split: sum.splits)

lemma on_order_active: "ws_active (fst (snd (on_order ws d))) = ws_active ws"
  by (auto simp add: on_order_def update_order_active split: sum.splits option.splits)

lemma run_callback_active:
  assumes "\<forall>w d. ws_active (fst (snd (callback w d))) = ws_active w"
  shows "ws_active (fst (snd (run_callback callback ws ds))) = ws_active ws"
proof (induction ds arbitrary: ws)
  case Nil
  show ?case by simp
next
  case (Cons d ds)
  obtain r ws' evs where c: "callback ws d = (r, ws', evs)"
    by (cases "callback ws d") auto
  from assms have "ws_active (fst (snd (callback ws d))) = ws_active ws" by blast
  with c have a: "ws_active ws' = ws_active ws" by simp
  show ?case
  proof (cases r)
    case None
    obtain r2 ws2 evs2 where n: "run_callback callback ws' ds = (r2, ws2, evs2)"
      by (cases "run_callback callback ws' ds") auto
    from c None n have "fst (snd (run_callback callback ws (d # ds))) = ws2" by simp
    moreover from Cons.IH [of ws'] n have "ws_active ws2 = ws_active ws'" by simp
    ultimately show ?thesis using a by simp
  next
    case (Some e)
    with c a show ?thesis by simp
  qed
qed

lemma callbacks_active:
  assumes others: "\<forall>name w d. ws_active (fst (snd (others name w d))) = ws_active w"
    and cb: "callbacks others name = Some callback"
  shows "ws_active (fst (snd (callback w d))) = ws_active w"
proof (cases "name = ''execution''")
  case True
  with cb have "callback = on_trade" by (simp add: callbacks_def)
  then show ?thesis by (simp add: on_trade_active)
next
  case no_execution: False
  show ?thesis
  proof (cases "name = ''order''")
    case True
    with cb have "callback = on_order" by (simp add: callbacks_def)
    then show ?thesis by (simp add: on_order_active)
  next
    case False
    with no_execution cb have "callback = others name"
      by (simp add: callbacks_def split: if_splits)
    with others show ?thesis by simp
  qed
qed

lemma index_callbacks_active:
  assumes "\<forall>name w d. ws_active (fst (snd (others name w d))) = ws_active w"
    and "index_json (callbacks others) v = Inr callback"
  shows "ws_active (fst (snd (callback w d))) = ws_active w"
proof -
  from assms(2) obtain name where "callbacks others name = Some callback"
    by (cases v) (simp_all add: index_json_def lookup_json_def bind_err_def
        split: option.splits)
  with assms(1) show ?thesis by (rule callbacks_active)
qed

lemma on_packet_error_active:
  "ws_active (fst (snd (on_packet_error ws packet))) \<longrightarrow> ws_active ws"
proof (cases "getitem packet ''error''")
  case (Inl e)
  then show ?thesis by (simp add: on_packet_error_def)
next
  case (Inr err)
  then show ?thesis
    by (cases "py_contains ''not valid'' err") (simp_all add: on_packet_error_def)
qed

lemma on_packet_request_state: "fst (snd (on_packet_request ws packet)) = ws"
  by (simp add: on_packet_request_def split: sum.splits)

lemma on_packet_table_active:
  assumes others: "\<forall>name w d. ws_active (fst (snd (others name w d))) = ws_active w"
  shows "ws_active (fst (snd (on_packet_table others ws packet))) = ws_active ws"
proof (cases "bind_err (getitem packet ''table'') (index_json (callbacks others))")
  case (Inl e)
  then show ?thesis by (simp add: on_packet_table_def)
next
  case cb: (Inr callback)
  have keep: "\<forall>w d. ws_active (fst (snd (callback w d))) = ws_active w"
  proof (cases "getitem packet ''table''")
    case (Inl e)
    with cb show ?thesis by (simp add: bind_err_def)
  next
    case (Inr v)
    with cb have "index_json (callbacks others) v = Inr callback"
      by (simp add: bind_err_def)
    from index_callbacks_active [OF others this] show ?thesis by simp
  qed
  show ?thesis
  proof (cases "getitem packet ''data''")
    case (Inl e)
    with cb show ?thesis by (simp add: on_packet_table_def)
  next
    case data: (Inr data)
    have "on_packet_table others ws packet
        = (case data of JArr ds \<Rightarrow> run_callback callback ws ds | _ \<Rightarrow> callback ws data)"
      using cb data by (simp add: on_packet_table_def split: json.splits)
    with keep run_callback_active [OF keep, of ws]
    show ?thesis by (cases data) simp_all
  qed
qed

lemma on_packet_never_activates:
  assumes others: "\<forall>name w d. ws_active (fst (snd (others name w d))) = ws_active w"
    and off: "\<not> ws_active ws"
  shows "\<not> ws_active (fst (snd (on_packet others ws packet)))"
  using off on_packet_error_active [of ws packet] on_packet_request_state [of ws packet]
    on_packet_table_active [OF others, of ws packet]
  by (simp add: on_packet_def split: sum.splits)

lemma on_packets_never_activates:
  assumes "\<forall>name w d. ws_active (fst (snd (others name w d))) = ws_active w"
    and "\<not> ws_active ws"
  shows "\<not> ws_active (fst (on_packets others ws ps))"
  using assms(2)
proof (induction ps arbitrary: ws)
  case Nil
  then show ?case by simp
next
  case (Cons p ps)
  obtain r ws' evs where s: "on_packet others ws p = (r, ws', evs)"
    by (cases "on_packet others ws p") auto
  with on_packet_never_activates [OF assms(1) Cons.prems, where packet = p]
  have "\<not> ws_active ws'" by simp
  from Cons.IH [OF this] have "\<not> ws_active (fst (on_packets others ws' ps))" .
  moreover from s have "fst (on_packets others ws (p # ps)) = fst (on_packets others ws' ps)"
    by (simp split: prod.splits)
  ultimately show ?case by simp
qed

lemma on_packet_error_notice:
  assumes "map_of kvs ''error'' = Some (JStr notice)"
  shows "on_packet others ws (JObj kvs) =
     (None, (if contains_substr ''not valid'' notice then ws\<lparr>ws_active := False\<rparr> else ws),
      [WriteLog (LogWsError (JStr notice))])"
proof -
  from assms have "''error'' \<in> fst ` set kvs"
    by (metis map_of_eq_None_iff option.distinct(1))
  with assms show ?thesis by (simp add: on_packet_def on_packet_error_def)
qed


text \<open>
  C9.  An error notice whose text contains \<open>not valid\<close> clears the flag \<open>active\<close>, and a
  session with the flag cleared is in the terminal state: after a disconnect it does not
  connect again.  An error notice without that text leaves the session as it was.  No
  packet sets the flag again (the handlers of the topics that are parameters are required
  not to touch it), so the state stays terminal.
\<close>

theorem invalid_credentials_stop_session:
  "(map_of kvs ''error'' = Some (JStr notice) \<and> contains_substr ''not valid'' notice \<longrightarrow>
      on_packet others ws (JObj kvs)
        = (None, ws\<lparr>ws_active := False\<rparr>, [WriteLog (LogWsError (JStr notice))])
      \<and> after_disconnect (ws\<lparr>ws_active := False\<rparr>) = Error)
   \<and> (map_of kvs ''error'' = Some (JStr notice) \<and> \<not> contains_substr ''not valid'' notice \<longrightarrow>
        on_packet others ws (JObj kvs) = (None, ws, [WriteLog (LogWsError (JStr notice))]))
   \<and> ((\<forall>name w d. ws_active (fst (snd (others name w d))) = ws_active w) \<and> \<not> ws_active ws
       \<longrightarrow> \<not> ws_active (fst (on_packets others ws ps))
          \<and> after_disconnect (fst (on_packets others ws ps)) = Error)"
proof (intro conjI impI)
  assume "map_of kvs ''error'' = Some (JStr notice) \<and> contains_substr ''not valid'' notice"
  with on_packet_error_notice [of kvs notice others ws]
  show "on_packet others ws (JObj kvs)
        = (None, ws\<lparr>ws_active := False\<rparr>, [WriteLog (LogWsError (JStr notice))])"
    by simp
next
  show "after_disconnect (ws\<lparr>ws_active := False\<rparr>) = Error"
    by (simp add: after_disconnect_def)
next
  assume "map_of kvs ''error'' = Some (JStr notice) \<and> \<not> contains_substr ''not valid'' notice"
  with on_packet_error_notice [of kvs notice others ws]
  show "on_packet others ws (JObj kvs) = (None, ws, [WriteLog (LogWsError (JStr notice))])"
    by simp
next
  assume a: "(\<forall>name w d. ws_active (fst (snd (others name w d))) = ws_active w)
      \<and> \<not> ws_active ws"
  then have "\<forall>name w d. ws_active (fst (snd (others name w d))) = ws_active w"
    and "\<not> ws_active ws" by simp_all
  then show n: "\<not> ws_active (fst (on_packets others ws ps))"
    by (rule on_packets_never_activates)
  then show "after_disconnect (fst (on_packets others ws ps)) = Error"
    by (simp add: after_disconnect_def)
qed

theorem invalid_credentials_stop_session_witness:
  "on_packet passive_handlers sample_ws invalid_key_notice
     = (None, sample_ws\<lparr>ws_active := False\<rparr>,
        [WriteLog (LogWsError (JStr ''Signature not valid.''))])
   \<and> after_disconnect (sample_ws\<lparr>ws_active := False\<rparr>) = Error
   \<and> on_packet passive_handlers sample_ws rate_notice
       = (None, sample_ws, [WriteLog (LogWsError (JStr ''Rate limit exceeded''))])
   \<and> ws_active sample_ws
   \<and> \<not> ws_active (fst (on_packets passive_handlers (sample_ws\<lparr>ws_active := False\<rparr>)
                          [auth_ack, rate_notice]))
   \<and> after_disconnect (fst (on_packets passive_handlers (sample_ws\<lparr>ws_active := False\<rparr>)
                              [auth_ack, rate_notice])) = Error"
proof -
  have a: "map_of [(''error'', JStr ''Signature not valid.''), (''status'', JNum 401)] ''error''
        = Some (JStr ''Signature not valid.'')
      \<and> contains_substr ''not valid'' ''Signature not valid.''"
    by simp
  have b: "map_of [(''error'', JStr ''Rate limit exceeded''), (''status'', JNum 429)] ''error''
        = Some (JStr ''Rate limit exceeded'')
      \<and> \<not> contains_substr ''not valid'' ''Rate limit exceeded''"
    by simp
  have c: "(\<forall>name w d. ws_active (fst (snd (passive_handlers name w d))) = ws_active w)
      \<and> \<not> ws_active (sample_ws\<lparr>ws_active := False\<rparr>)"
    by (simp add: passive_handlers_def)
  have t: "ws_active sample_ws" by (simp add: sample_ws_def)
  note 1 = invalid_credentials_stop_session [where others = passive_handlers
      and ws = sample_ws, THEN conjunct1, THEN mp, OF a]
  note 2 = invalid_credentials_stop_session [where others = passive_handlers
      and ws = sample_ws, THEN conjunct2, THEN conjunct1, THEN mp, OF b]
  note 3 = invalid_credentials_stop_session [where others = passive_handlers
      and ps = "[auth_ack, rate_notice]",
      THEN conjunct2, THEN conjunct2, THEN mp, OF c]
  from 1 2 3 t show ?thesis
    by (simp only: invalid_key_notice_def rate_notice_def simp_thms)
qed

end
